theory Spec2Isabelle
  imports Complex_Main
begin

section \<open>Numbers, vectors and quaternions\<close>

text \<open>
  JavaScript numbers are modelled by \<^typ>\<open>real\<close>: rounding, NaN and the infinities are
  left out, and \<open>Math.PI\<close> is \<^term>\<open>pi\<close>.  Two places where the doubles of the program
  leave the real numbers by more than rounding are kept out of every statement below:
  \<^item> \<open>Math.PI\<close> is a little less than \<^term>\<open>pi\<close>, so \<open>Math.cos(Math.PI / 2)\<close> is about
    \<open>6.1e-17\<close> and not 0: nothing is stated about the exact value of
    \<open>getCurrentRadius\<close> at the factor 1;
  \<^item> the squared length of a vector underflows to 0 or overflows for vectors of extreme
    magnitude, and \<open>normalize\<close> then returns the vector as it is, or the zero vector:
    the unit length of a normalised argument is stated for squared lengths between
    \<open>1e-200\<close> and \<open>1e200\<close> only.
  The vector and quaternion operations are those of three.js r128, the
  graphics library the program is written against; each definition names the method it
  stands for.
\<close>

datatype Vector3 = Vector3 (vx: real) (vy: real) (vz: real)

definition add :: "Vector3 \<Rightarrow> Vector3 \<Rightarrow> Vector3" where
  \<comment> \<open>\<open>a.add(b)\<close>\<close>
  "add a b = Vector3 (vx a + vx b) (vy a + vy b) (vz a + vz b)"

definition addVectors :: "Vector3 \<Rightarrow> Vector3 \<Rightarrow> Vector3" where
  "addVectors a b = Vector3 (vx a + vx b) (vy a + vy b) (vz a + vz b)"

definition subVectors :: "Vector3 \<Rightarrow> Vector3 \<Rightarrow> Vector3" where
  "subVectors a b = Vector3 (vx a - vx b) (vy a - vy b) (vz a - vz b)"

definition multiplyScalar :: "Vector3 \<Rightarrow> real \<Rightarrow> Vector3" where
  "multiplyScalar v s = Vector3 (vx v * s) (vy v * s) (vz v * s)"

definition divideScalar :: "Vector3 \<Rightarrow> real \<Rightarrow> Vector3" where
  "divideScalar v s = multiplyScalar v (1 / s)"

definition dot :: "Vector3 \<Rightarrow> Vector3 \<Rightarrow> real" where
  "dot a b = vx a * vx b + vy a * vy b + vz a * vz b"

definition crossVectors :: "Vector3 \<Rightarrow> Vector3 \<Rightarrow> Vector3" where
  "crossVectors a b =
     Vector3 (vy a * vz b - vz a * vy b)
             (vz a * vx b - vx a * vz b)
             (vx a * vy b - vy a * vx b)"

definition length_v :: "Vector3 \<Rightarrow> real" where
  \<comment> \<open>\<open>v.length()\<close>\<close>
  "length_v v = sqrt (vx v * vx v + vy v * vy v + vz v * vz v)"

definition normalize_v :: "Vector3 \<Rightarrow> Vector3" where
  \<comment> \<open>\<open>this.divideScalar(this.length() || 1)\<close>: the zero vector stays the zero vector.
      Over the reals every other vector gets length 1; in doubles so does every vector
      whose squared length neither underflows to 0 nor overflows, up to rounding.\<close>
  "normalize_v v = divideScalar v (if length_v v = 0 then 1 else length_v v)"

definition distanceToSquared :: "Vector3 \<Rightarrow> Vector3 \<Rightarrow> real" where
  "distanceToSquared a b =
     (let dx = vx a - vx b; dy = vy a - vy b; dz = vz a - vz b
      in dx * dx + dy * dy + dz * dz)"

definition distanceTo :: "Vector3 \<Rightarrow> Vector3 \<Rightarrow> real" where
  "distanceTo a b = sqrt (distanceToSquared a b)"

datatype Quaternion = Quaternion (qx: real) (qy: real) (qz: real) (qw: real)

definition length_q :: "Quaternion \<Rightarrow> real" where
  "length_q q = sqrt (qx q * qx q + qy q * qy q + qz q * qz q + qw q * qw q)"

definition normalize_q :: "Quaternion \<Rightarrow> Quaternion" where
  \<comment> \<open>\<open>Quaternion.normalize\<close>: a quaternion of length 0 becomes the identity\<close>
  "normalize_q q =
     (let l = length_q q
      in if l = 0 then Quaternion 0 0 0 1
         else Quaternion (qx q * (1 / l)) (qy q * (1 / l)) (qz q * (1 / l)) (qw q * (1 / l)))"

definition Number_EPSILON :: real where
  \<comment> \<open>\<open>Number.EPSILON\<close>, the gap between 1 and the next double\<close>
  "Number_EPSILON = 1 / 2 ^ 52"

definition setFromUnitVectors :: "Vector3 \<Rightarrow> Vector3 \<Rightarrow> Quaternion" where
  "setFromUnitVectors vFrom vTo =
     (let r = dot vFrom vTo + 1
      in if r < Number_EPSILON then
           (if \<bar>vx vFrom\<bar> > \<bar>vz vFrom\<bar>
            then normalize_q (Quaternion (- vy vFrom) (vx vFrom) 0 0)
            else normalize_q (Quaternion 0 (- vz vFrom) (vy vFrom) 0))
         else normalize_q (Quaternion (vy vFrom * vz vTo - vz vFrom * vy vTo)
                                      (vz vFrom * vx vTo - vx vFrom * vz vTo)
                                      (vx vFrom * vy vTo - vy vFrom * vx vTo) r))"

definition setFromAxisAngle :: "Vector3 \<Rightarrow> real \<Rightarrow> Quaternion" where
  "setFromAxisAngle ax angle =
     (let halfAngle = angle / 2; s = sin halfAngle
      in Quaternion (vx ax * s) (vy ax * s) (vz ax * s) (cos halfAngle))"

definition multiplyQuaternions :: "Quaternion \<Rightarrow> Quaternion \<Rightarrow> Quaternion" where
  "multiplyQuaternions a b =
     Quaternion (qx a * qw b + qw a * qx b + qy a * qz b - qz a * qy b)
                (qy a * qw b + qw a * qy b + qz a * qx b - qx a * qz b)
                (qz a * qw b + qw a * qz b + qx a * qy b - qy a * qx b)
                (qw a * qw b - qx a * qx b - qy a * qy b - qz a * qz b)"

section \<open>Meshes\<close>

datatype Geometry =
    CylinderGeometry (radiusTop: real) (radiusBottom: real) (height: real) (radialSegments: nat)
  | SphereGeometry (radius: real) (widthSegments: nat) (heightSegments: nat)

text \<open>
  Of a mesh the model keeps the geometry parameters, the position, the orientation, the
  scale along its own y axis and the \<open>userData\<close> of a connecting strut
  (\<open>isConnectionStrut\<close> with \<open>point1\<close> and \<open>point2\<close>; \<open>None\<close> for a mesh without the
  tag).  Materials are not modelled.
\<close>

record Mesh =
  geometry :: Geometry
  mesh_position :: Vector3
  mesh_quaternion :: Quaternion
  scale_y :: real
  userData :: "(Vector3 \<times> Vector3) option"

definition new_Mesh :: "Geometry \<Rightarrow> Mesh" where
  \<comment> \<open>\<open>new THREE.Mesh(geometry, material)\<close>: at the origin, not rotated, scale 1\<close>
  "new_Mesh g =
     \<lparr>geometry = g, mesh_position = Vector3 0 0 0, mesh_quaternion = Quaternion 0 0 0 1,
      scale_y = 1, userData = None\<rparr>"

definition rotateOnAxis :: "Vector3 \<Rightarrow> real \<Rightarrow> Mesh \<Rightarrow> Mesh" where
  "rotateOnAxis ax angle m =
     m\<lparr>mesh_quaternion := multiplyQuaternions (mesh_quaternion m) (setFromAxisAngle ax angle)\<rparr>"

section \<open>ScissorLink\<close>

record Endpoints =
  top1 :: Vector3
  top2 :: Vector3
  bottom1 :: Vector3
  bottom2 :: Vector3

record ScissorLink =
  position :: Vector3
  axis :: Vector3
  strutLength :: real
  strutRadius :: real
  expansionFactor :: real
  strut1 :: Mesh
  strut2 :: Mesh
  pivot :: Mesh
  endpoints :: Endpoints

definition perpAxis1_of :: "Vector3 \<Rightarrow> Vector3" where
  \<comment> \<open>the first perpendicular axis computed at the head of \<open>updateGeometry\<close>\<close>
  "perpAxis1_of a =
     normalize_v (if \<bar>vy a\<bar> < 0.9 then crossVectors a (Vector3 0 1 0)
                else crossVectors a (Vector3 1 0 0))"

definition perpAxis2_of :: "Vector3 \<Rightarrow> Vector3" where
  "perpAxis2_of a = normalize_v (crossVectors a (perpAxis1_of a))"

definition updateEndpoints :: "real \<Rightarrow> real \<Rightarrow> Vector3 \<Rightarrow> Vector3 \<Rightarrow> ScissorLink \<Rightarrow> ScissorLink" where
  "updateEndpoints openAngle halfLength perpAxis1 perpAxis2 L =
     (let offset = halfLength * sin openAngle;
          height = halfLength * cos openAngle
      in L\<lparr>endpoints :=
            \<lparr>top1 = add (add (position L) (multiplyScalar (axis L) height))
                         (multiplyScalar perpAxis1 offset),
             top2 = add (add (position L) (multiplyScalar (axis L) height))
                         (multiplyScalar perpAxis1 (- offset)),
             bottom1 = add (add (position L) (multiplyScalar (axis L) (- height)))
                            (multiplyScalar perpAxis1 offset),
             bottom2 = add (add (position L) (multiplyScalar (axis L) (- height)))
                            (multiplyScalar perpAxis1 (- offset))\<rparr>\<rparr>)"

definition updateGeometry :: "ScissorLink \<Rightarrow> ScissorLink" where
  "updateGeometry L =
     (let openAngle = expansionFactor L * pi / 2;
          perpAxis1 = perpAxis1_of (axis L);
          perpAxis2 = perpAxis2_of (axis L);
          halfLength = strutLength L / 2;
          offset = halfLength * sin openAngle;
          strut1Pos = add (position L) (multiplyScalar perpAxis1 offset);
          s1 = rotateOnAxis perpAxis2 openAngle
                 ((strut1 L)\<lparr>mesh_position := strut1Pos,
                     mesh_quaternion := setFromUnitVectors (Vector3 0 1 0) (axis L)\<rparr>);
          strut2Pos = add (position L) (multiplyScalar perpAxis1 (- offset));
          s2 = rotateOnAxis perpAxis2 (- openAngle)
                 ((strut2 L)\<lparr>mesh_position := strut2Pos,
                     mesh_quaternion := setFromUnitVectors (Vector3 0 1 0) (axis L)\<rparr>);
          p = (pivot L)\<lparr>mesh_position := position L\<rparr>
      in updateEndpoints openAngle halfLength perpAxis1 perpAxis2
           (L\<lparr>strut1 := s1, strut2 := s2, pivot := p\<rparr>))"

definition initialize ::
  "Vector3 \<Rightarrow> Vector3 \<Rightarrow> real \<Rightarrow> real \<Rightarrow> real \<Rightarrow> Endpoints \<Rightarrow> ScissorLink" where
  \<comment> \<open>\<open>this.initialize()\<close>.  The arguments are the fields the constructor has assigned when it
      calls \<open>initialize\<close>; \<open>strut1\<close>, \<open>strut2\<close> and \<open>pivot\<close> are still \<open>null\<close> then.  It creates
      the two strut meshes and the pivot mesh, then places them.\<close>
  "initialize pos ax len rad factor ends =
     (let strutGeometry = CylinderGeometry rad rad len 8;
          strut1 = new_Mesh strutGeometry;
          strut2 = new_Mesh strutGeometry;
          pivotGeometry = SphereGeometry (rad * 2) 16 16;
          pivot = new_Mesh pivotGeometry
      in updateGeometry
           \<lparr>position = pos, axis = ax, strutLength = len, strutRadius = rad,
            expansionFactor = factor, strut1 = strut1, strut2 = strut2, pivot = pivot,
            endpoints = ends\<rparr>)"

definition ScissorLink_new :: "Vector3 \<Rightarrow> Vector3 \<Rightarrow> real \<Rightarrow> real \<Rightarrow> ScissorLink option" where
  \<comment> \<open>the constructor; \<open>None\<close> would be a thrown exception, and neither the constructor nor
      \<open>initialize\<close> has a statement that throws\<close>
  "ScissorLink_new pos ax len rad =
     Some (initialize pos (normalize_v ax) len rad 0.5
             \<lparr>top1 = Vector3 0 0 0, top2 = Vector3 0 0 0,
              bottom1 = Vector3 0 0 0, bottom2 = Vector3 0 0 0\<rparr>)"

definition ScissorLink_setExpansion :: "real \<Rightarrow> ScissorLink \<Rightarrow> ScissorLink" where
  "ScissorLink_setExpansion factor L =
     updateGeometry (L\<lparr>expansionFactor := max 0 (min 1 factor)\<rparr>)"

definition getCurrentRadius :: "ScissorLink \<Rightarrow> real" where
  \<comment> \<open>at the factor 1 the model gives \<open>(strutLength / 2) * cos (pi / 2)\<close>, which is 0, where
      the program gives \<open>(strutLength / 2) * Math.cos(Math.PI / 2)\<close>, about
      \<open>6.1e-17 * (strutLength / 2)\<close>\<close>
  "getCurrentRadius L =
     (let openAngle = expansionFactor L * pi / 2
      in (strutLength L / 2) * cos openAngle)"

section \<open>HobermanSphere\<close>

record Config =
  minRadius :: real
  maxRadius :: real
  strutRadius_cfg :: real
  subdivisions :: real
  color :: nat
  materialType :: string

text \<open>The \<open>options\<close> argument of the constructor: a field that is absent is \<open>None\<close>.\<close>

record Options =
  opt_minRadius :: "real option"
  opt_maxRadius :: "real option"
  opt_strutRadius :: "real option"
  opt_subdivisions :: "real option"
  opt_color :: "nat option"
  opt_materialType :: "string option"

fun or_num :: "real option \<Rightarrow> real \<Rightarrow> real" where
  \<comment> \<open>\<open>x || d\<close> on numbers: an absent field and 0 are both falsy\<close>
  "or_num None d = d"
| "or_num (Some x) d = (if x = 0 then d else x)"

fun or_nat :: "nat option \<Rightarrow> nat \<Rightarrow> nat" where
  "or_nat None d = d"
| "or_nat (Some x) d = (if x = 0 then d else x)"

fun or_str :: "string option \<Rightarrow> string \<Rightarrow> string" where
  \<comment> \<open>\<open>x || d\<close> on strings: an absent field and the empty string are both falsy\<close>
  "or_str None d = d"
| "or_str (Some x) d = (if x = [] then d else x)"

datatype LinkPart = Strut1 | Strut2 | Pivot

text \<open>
  A child of \<open>sphereGroup\<close> is either one of the three meshes of the scissor link at an
  index of \<open>scissorLinks\<close> (the link holds the mesh; the group holds a reference to it), or
  a mesh that only the group holds: a connecting strut.
\<close>

datatype Child = LinkMesh nat LinkPart | OwnMesh Mesh

record HobermanSphere =
  config :: Config
  sphere_expansionFactor :: real
  isAnimating :: bool
  animationSpeed :: real
  rotationSpeed :: real
  pitchSpeed :: real
  currentPitch :: real
  scissorLinks :: "ScissorLink list"
  children :: "Child list"
  rotation_x :: real
  rotation_y :: real
  rotation_z :: real

definition removeDuplicateVertices :: "Vector3 list \<Rightarrow> Vector3 list" where
  "removeDuplicateVertices vertices =
     (let threshold = 0.0001
      in fold (\<lambda>v unique.
                 let isDuplicate = list_ex (\<lambda>u. distanceTo u v < threshold) unique
                 in if \<not> isDuplicate then unique @ [v] else unique)
              vertices [])"

definition createRadialScissorLink :: "Vector3 \<Rightarrow> HobermanSphere \<Rightarrow> HobermanSphere option" where
  \<comment> \<open>the constructor of the link adds its three meshes to \<open>sphereGroup\<close>, then the link is
      pushed on \<open>scissorLinks\<close>\<close>
  "createRadialScissorLink vertex S =
     (let direction = normalize_v vertex;
          midPoint = multiplyScalar direction (maxRadius (config S) * 0.5);
          strutLength = maxRadius (config S) * 0.5
      in case ScissorLink_new midPoint direction strutLength (strutRadius_cfg (config S)) of
           None \<Rightarrow> None
         | Some scissorLink \<Rightarrow>
             Some (S\<lparr>children := children S @
                        [LinkMesh (length (scissorLinks S)) Strut1,
                         LinkMesh (length (scissorLinks S)) Strut2,
                         LinkMesh (length (scissorLinks S)) Pivot],
                      scissorLinks := scissorLinks S @ [scissorLink]\<rparr>))"

fun createRadialScissorLinks :: "Vector3 list \<Rightarrow> HobermanSphere \<Rightarrow> HobermanSphere option" where
  \<comment> \<open>\<open>uniqueVertices.forEach(vertex => this.createRadialScissorLink(vertex))\<close>\<close>
  "createRadialScissorLinks [] S = Some S"
| "createRadialScissorLinks (vertex # rest) S =
     (case createRadialScissorLink vertex S of
        None \<Rightarrow> None
      | Some S' \<Rightarrow> createRadialScissorLinks rest S')"

definition createConnectionStrut :: "Vector3 \<Rightarrow> Vector3 \<Rightarrow> HobermanSphere \<Rightarrow> HobermanSphere" where
  "createConnectionStrut point1 point2 S =
     (let direction = subVectors point2 point1;
          length = length_v direction;
          midpoint = multiplyScalar (addVectors point1 point2) 0.5;
          geometry = CylinderGeometry (strutRadius_cfg (config S) * 0.5)
                       (strutRadius_cfg (config S) * 0.5) length 6;
          strut = (new_Mesh geometry)
                    \<lparr>mesh_position := midpoint,
                     mesh_quaternion := setFromUnitVectors (Vector3 0 1 0) (normalize_v direction),
                     userData := Some (point1, point2)\<rparr>
      in S\<lparr>children := children S @ [OwnMesh strut]\<rparr>)"

definition createConnectingStruts :: "Vector3 list \<Rightarrow> HobermanSphere \<Rightarrow> HobermanSphere" where
  "createConnectingStruts vertices S =
     (let connectionThreshold = 1.2
      in fold (\<lambda>i. fold (\<lambda>j S'.
                  let distance = distanceTo (vertices ! i) (vertices ! j)
                  in if distance < connectionThreshold
                     then createConnectionStrut (vertices ! i) (vertices ! j) S'
                     else S')
                [i + 1 ..< length vertices])
           [0 ..< length vertices] S)"

definition buildSphere :: "Vector3 list \<Rightarrow> HobermanSphere \<Rightarrow> HobermanSphere option" where
  \<comment> \<open>\<open>vertexPositions\<close> are the vertices read from the position array of
      \<open>new THREE.IcosahedronGeometry(1, subdivisions)\<close>, three numbers each\<close>
  "buildSphere vertexPositions S =
     (let uniqueVertices = removeDuplicateVertices vertexPositions
      in case createRadialScissorLinks uniqueVertices S of
           None \<Rightarrow> None
         | Some S' \<Rightarrow> Some (createConnectingStruts uniqueVertices S'))"

definition HobermanSphere_new :: "Options \<Rightarrow> Vector3 list \<Rightarrow> HobermanSphere option" where
  "HobermanSphere_new options vertexPositions =
     buildSphere vertexPositions
       \<lparr>config = \<lparr>minRadius = or_num (opt_minRadius options) 2,
                  maxRadius = or_num (opt_maxRadius options) 8,
                  strutRadius_cfg = or_num (opt_strutRadius options) 0.08,
                  subdivisions = or_num (opt_subdivisions options) 2,
                  color = or_nat (opt_color options) 0x00aaff,
                  materialType = or_str (opt_materialType options) ''metallic''\<rparr>,
        sphere_expansionFactor = 0.5,
        isAnimating = False,
        animationSpeed = 0.3,
        rotationSpeed = 0.2,
        pitchSpeed = 0.1,
        currentPitch = 0,
        scissorLinks = [],
        children = [],
        rotation_x = 0, rotation_y = 0, rotation_z = 0\<rparr>"

definition updateConnectionStrut :: "HobermanSphere \<Rightarrow> Child \<Rightarrow> Child" where
  \<comment> \<open>the body of the \<open>forEach\<close> in \<open>updateConnectionStruts\<close>; a mesh of a scissor link
      carries no \<open>isConnectionStrut\<close> tag.  \<open>height\<close> reads \<open>geometry.parameters.height\<close>:
      every tagged mesh is a cylinder of a height other than 0 (\<open>sphere_inv\<close> below)\<close>
  "updateConnectionStrut S child =
     (case child of
        LinkMesh i part \<Rightarrow> child
      | OwnMesh m \<Rightarrow>
          (case userData m of
             None \<Rightarrow> child
           | Some (p1, p2) \<Rightarrow>
               (let currentRadius = minRadius (config S) +
                      (maxRadius (config S) - minRadius (config S)) * sphere_expansionFactor S;
                    scaleFactor = currentRadius / maxRadius (config S);
                    point1 = multiplyScalar p1 scaleFactor;
                    point2 = multiplyScalar p2 scaleFactor;
                    direction = subVectors point2 point1;
                    length = length_v direction;
                    midpoint = multiplyScalar (addVectors point1 point2) 0.5
                in OwnMesh (m\<lparr>mesh_position := midpoint,
                              scale_y := length / height (geometry m),
                              mesh_quaternion :=
                                setFromUnitVectors (Vector3 0 1 0) (normalize_v direction)\<rparr>))))"

definition updateConnectionStruts :: "HobermanSphere \<Rightarrow> HobermanSphere" where
  "updateConnectionStruts S = S\<lparr>children := map (updateConnectionStrut S) (children S)\<rparr>"

definition HobermanSphere_setExpansion :: "real \<Rightarrow> HobermanSphere \<Rightarrow> HobermanSphere" where
  "HobermanSphere_setExpansion factor S =
     (let S1 = S\<lparr>sphere_expansionFactor := max 0 (min 1 factor)\<rparr>;
          S2 = S1\<lparr>scissorLinks :=
                    map (ScissorLink_setExpansion (sphere_expansionFactor S1)) (scissorLinks S1)\<rparr>
      in updateConnectionStruts S2)"

definition updateColor :: "nat \<Rightarrow> HobermanSphere \<Rightarrow> HobermanSphere" where
  \<comment> \<open>the material is not modelled: what stays is the colour kept in the configuration\<close>
  "updateColor c S = S\<lparr>config := (config S)\<lparr>color := c\<rparr>\<rparr>"

definition updateMaterialType :: "string \<Rightarrow> HobermanSphere \<Rightarrow> HobermanSphere" where
  "updateMaterialType t S = S\<lparr>config := (config S)\<lparr>materialType := t\<rparr>\<rparr>"

definition startAnimation :: "HobermanSphere \<Rightarrow> HobermanSphere" where
  "startAnimation S = S\<lparr>isAnimating := True\<rparr>"

definition stopAnimation :: "HobermanSphere \<Rightarrow> HobermanSphere" where
  "stopAnimation S = S\<lparr>isAnimating := False\<rparr>"

definition toggleAnimation :: "HobermanSphere \<Rightarrow> HobermanSphere" where
  "toggleAnimation S = S\<lparr>isAnimating := \<not> isAnimating S\<rparr>"

definition update :: "real \<Rightarrow> real \<Rightarrow> HobermanSphere \<Rightarrow> HobermanSphere" where
  \<comment> \<open>\<open>update(deltaTime)\<close>; \<open>now\<close> is the value \<open>Date.now()\<close> returns during the call\<close>
  "update deltaTime now S =
     (if isAnimating S then
        (let breathingCycle = sin (now * 0.001 * animationSpeed S) * 0.5 + 0.5;
             S1 = HobermanSphere_setExpansion breathingCycle S;
             S2 = S1\<lparr>rotation_y := rotation_y S1 + rotationSpeed S1 * deltaTime\<rparr>;
             S3 = S2\<lparr>currentPitch := currentPitch S2 + pitchSpeed S2 * deltaTime\<rparr>
         in S3\<lparr>rotation_x := sin (currentPitch S3) * 0.4,
               rotation_z := cos (currentPitch S3 * 0.7) * 0.3\<rparr>)
      else S)"

text \<open>
  The states the assembly can be in: built by the constructor, then driven by
  \<open>setExpansion\<close>, the colour and material commands, the animation switches and the
  per-frame \<open>update\<close>.
\<close>

inductive reachable :: "HobermanSphere \<Rightarrow> bool" where
  built: "HobermanSphere_new options vertexPositions = Some S \<Longrightarrow> reachable S"
| expanded: "reachable S \<Longrightarrow> reachable (HobermanSphere_setExpansion factor S)"
| recoloured: "reachable S \<Longrightarrow> reachable (updateColor c S)"
| rematerialed: "reachable S \<Longrightarrow> reachable (updateMaterialType t S)"
| started: "reachable S \<Longrightarrow> reachable (startAnimation S)"
| stopped: "reachable S \<Longrightarrow> reachable (stopAnimation S)"
| toggled: "reachable S \<Longrightarrow> reachable (toggleAnimation S)"
| updated: "reachable S \<Longrightarrow> reachable (update deltaTime now S)"

section \<open>Auxiliary notions\<close>

text \<open>
  These are not part of the program: they name what the loops of the program build, so
  that the facts below can be stated.
\<close>

definition connectionStrutMesh :: "real \<Rightarrow> Vector3 \<Rightarrow> Vector3 \<Rightarrow> Mesh" where
  \<comment> \<open>the mesh \<open>createConnectionStrut\<close> adds for two points, at strut radius \<open>r\<close>\<close>
  "connectionStrutMesh r point1 point2 =
     \<lparr>geometry = CylinderGeometry (r * 0.5) (r * 0.5) (length_v (subVectors point2 point1)) 6,
      mesh_position = multiplyScalar (addVectors point1 point2) 0.5,
      mesh_quaternion =
        setFromUnitVectors (Vector3 0 1 0) (normalize_v (subVectors point2 point1)),
      scale_y = 1,
      userData = Some (point1, point2)\<rparr>"

definition connectionStruts_of :: "real \<Rightarrow> Vector3 list \<Rightarrow> Child list" where
  \<comment> \<open>the children the two nested loops of \<open>createConnectingStruts\<close> add, in order\<close>
  "connectionStruts_of r vertices =
     concat (map (\<lambda>i. map (\<lambda>j. OwnMesh (connectionStrutMesh r (vertices ! i) (vertices ! j)))
                          (filter (\<lambda>j. distanceTo (vertices ! i) (vertices ! j) < 1.2)
                             [i + 1 ..< length vertices]))
                 [0 ..< length vertices])"

definition apart :: "Vector3 list \<Rightarrow> bool" where
  \<comment> \<open>no vertex of the list is within the threshold of an earlier one\<close>
  "apart us = list_all (\<lambda>j. list_all (\<lambda>i. \<not> distanceTo (us ! i) (us ! j) < 0.0001) [0 ..< j])
                [0 ..< length us]"

fun tag_of :: "Child \<Rightarrow> (Vector3 \<times> Vector3) option" where
  \<comment> \<open>the reference points of a child tagged as a connecting strut\<close>
  "tag_of (LinkMesh i part) = None"
| "tag_of (OwnMesh m) = userData m"

definition is_link_ref :: "Child \<Rightarrow> bool" where
  "is_link_ref c = (case c of LinkMesh i part \<Rightarrow> True | OwnMesh m \<Rightarrow> False)"

fun strut_ok :: "Child \<Rightarrow> bool" where
  \<comment> \<open>a tagged child is a cylinder as long as its two reference points are apart, and
      these differ\<close>
  "strut_ok (LinkMesh i part) = True"
| "strut_ok (OwnMesh m) =
     (case userData m of
        None \<Rightarrow> True
      | Some (p1, p2) \<Rightarrow>
          p1 \<noteq> p2 \<and>
          (case geometry m of
             CylinderGeometry rt rb h n \<Rightarrow> h = length_v (subVectors p2 p1)
           | SphereGeometry r w h \<Rightarrow> False))"

definition sphere_inv :: "HobermanSphere \<Rightarrow> bool" where
  "sphere_inv S = (maxRadius (config S) \<noteq> 0 \<and> list_all strut_ok (children S))"

section \<open>Facts about vectors and the link geometry\<close>

lemma length_v_nonneg: "0 \<le> length_v v"
  by (simp add: length_v_def)

lemma length_v_zero_iff: "length_v v = 0 \<longleftrightarrow> v = Vector3 0 0 0"
proof (cases v)
  case (Vector3 x y z)
  have "x * x + y * y + z * z = 0 \<longleftrightarrow> x = 0 \<and> y = 0 \<and> z = 0"
  proof
    assume h: "x * x + y * y + z * z = 0"
    have "0 \<le> x * x" "0 \<le> y * y" "0 \<le> z * z" by simp_all
    with h have "x * x = 0" "y * y = 0" "z * z = 0" by linarith+
    then show "x = 0 \<and> y = 0 \<and> z = 0" by simp
  qed simp
  then show ?thesis using Vector3 by (simp add: length_v_def)
qed

lemma length_v_multiplyScalar: "length_v (multiplyScalar v s) = \<bar>s\<bar> * length_v v"
proof -
  have "vx v * s * (vx v * s) + vy v * s * (vy v * s) + vz v * s * (vz v * s)
        = (s * s) * (vx v * vx v + vy v * vy v + vz v * vz v)"
    by (simp add: algebra_simps)
  then show ?thesis
    by (simp add: length_v_def multiplyScalar_def real_sqrt_mult)
qed

lemma normalize_unit:
  assumes "v \<noteq> Vector3 0 0 0"
  shows "length_v (normalize_v v) = 1"
proof -
  have pos: "0 < length_v v"
    using assms length_v_nonneg [of v] length_v_zero_iff [of v] by linarith
  then have "normalize_v v = multiplyScalar v (1 / length_v v)"
    by (simp add: normalize_v_def divideScalar_def)
  then have "length_v (normalize_v v) = \<bar>1 / length_v v\<bar> * length_v v"
    by (simp only: length_v_multiplyScalar)
  with pos show ?thesis by simp
qed

lemma normalize_zero: "normalize_v (Vector3 0 0 0) = Vector3 0 0 0"
  by (simp add: normalize_v_def divideScalar_def multiplyScalar_def length_v_def)

lemma perp_nonzero:
  assumes "length_v a = 1"
  shows "(if \<bar>vy a\<bar> < 0.9 then crossVectors a (Vector3 0 1 0)
          else crossVectors a (Vector3 1 0 0)) \<noteq> Vector3 0 0 0"
proof (cases a)
  case (Vector3 x y z)
  from assms Vector3 have u: "x * x + y * y + z * z = 1"
    by (simp add: length_v_def)
  show ?thesis
  proof (cases "\<bar>y\<bar> < 0.9")
    case True
    have "\<not> (x = 0 \<and> z = 0)"
    proof
      assume "x = 0 \<and> z = 0"
      with u have "y * y = 1" by simp
      then have "y\<^sup>2 = 1" by (simp add: power2_eq_square)
      then have "y = 1 \<or> y = - 1" by (simp add: power2_eq_1_iff)
      with True show False by auto
    qed
    with True Vector3 show ?thesis by (auto simp: crossVectors_def)
  next
    case False
    then have "y \<noteq> 0" by auto
    with False Vector3 show ?thesis by (auto simp: crossVectors_def)
  qed
qed

lemma perpAxis1_unit: "length_v a = 1 \<Longrightarrow> length_v (perpAxis1_of a) = 1"
  unfolding perpAxis1_of_def by (rule normalize_unit) (rule perp_nonzero)

lemma distanceTo_offset: "distanceTo (add p (multiplyScalar u s)) p = \<bar>s\<bar> * length_v u"
proof -
  have "distanceTo (add p (multiplyScalar u s)) p = length_v (multiplyScalar u s)"
    by (simp add: distanceTo_def distanceToSquared_def add_def length_v_def multiplyScalar_def Let_def)
  then show ?thesis by (simp add: length_v_multiplyScalar)
qed


lemma updateGeometry_fields [simp]:
  "position (updateGeometry L) = position L"
  "axis (updateGeometry L) = axis L"
  "strutLength (updateGeometry L) = strutLength L"
  "strutRadius (updateGeometry L) = strutRadius L"
  "expansionFactor (updateGeometry L) = expansionFactor L"
  by (simp_all add: updateGeometry_def updateEndpoints_def Let_def)

lemma updateGeometry_strut_positions:
  "mesh_position (strut1 (updateGeometry L)) =
     add (position L) (multiplyScalar (perpAxis1_of (axis L))
       (strutLength L / 2 * sin (expansionFactor L * pi / 2)))"
  "mesh_position (strut2 (updateGeometry L)) =
     add (position L) (multiplyScalar (perpAxis1_of (axis L))
       (- (strutLength L / 2 * sin (expansionFactor L * pi / 2))))"
  "mesh_position (pivot (updateGeometry L)) = position L"
  by (simp_all add: updateGeometry_def updateEndpoints_def rotateOnAxis_def Let_def)

lemma setExpansion_fields [simp]:
  "position (ScissorLink_setExpansion f L) = position L"
  "axis (ScissorLink_setExpansion f L) = axis L"
  "strutLength (ScissorLink_setExpansion f L) = strutLength L"
  "strutRadius (ScissorLink_setExpansion f L) = strutRadius L"
  "expansionFactor (ScissorLink_setExpansion f L) = max 0 (min 1 f)"
  by (simp_all add: ScissorLink_setExpansion_def)

lemma ScissorLink_new_fields:
  "position (the (ScissorLink_new pos ax len rad)) = pos"
  "axis (the (ScissorLink_new pos ax len rad)) = normalize_v ax"
  "strutLength (the (ScissorLink_new pos ax len rad)) = len"
  "strutRadius (the (ScissorLink_new pos ax len rad)) = rad"
  "expansionFactor (the (ScissorLink_new pos ax len rad)) = 0.5"
  by (simp_all add: ScissorLink_new_def initialize_def Let_def)

lemma perpAxis1_zero: "perpAxis1_of (Vector3 0 0 0) = Vector3 0 0 0"
  by (simp add: perpAxis1_of_def crossVectors_def normalize_zero)

lemma perpAxis1_x: "perpAxis1_of (Vector3 1 0 0) = Vector3 0 0 1"
  by (simp add: perpAxis1_of_def crossVectors_def normalize_v_def divideScalar_def
        multiplyScalar_def length_v_def)

lemma normalize_x: "normalize_v (Vector3 1 0 0) = Vector3 1 0 0"
  by (simp add: normalize_v_def divideScalar_def multiplyScalar_def length_v_def)

section \<open>Facts about building and driving the assembly\<close>

lemma distanceTo_along_x: "distanceTo (Vector3 a y z) (Vector3 b y z) = \<bar>a - b\<bar>"
  by (simp add: distanceTo_def distanceToSquared_def Let_def)

lemma distanceTo_self: "distanceTo a a = 0"
  by (simp add: distanceTo_def distanceToSquared_def)

lemma length_v_subVectors: "length_v (subVectors b a) = distanceTo b a"
  by (simp add: length_v_def subVectors_def distanceTo_def distanceToSquared_def Let_def)

lemma distanceTo_sym: "distanceTo a b = distanceTo b a"
proof -
  have "(vx a - vx b) * (vx a - vx b) = (vx b - vx a) * (vx b - vx a)"
       "(vy a - vy b) * (vy a - vy b) = (vy b - vy a) * (vy b - vy a)"
       "(vz a - vz b) * (vz a - vz b) = (vz b - vz a) * (vz b - vz a)"
    by (simp_all add: algebra_simps)
  then show ?thesis by (simp add: distanceTo_def distanceToSquared_def Let_def)
qed

subsection \<open>removeDuplicateVertices\<close>

lemma removeDuplicateVertices_two:
  "removeDuplicateVertices [v1, v2] = (if distanceTo v1 v2 < 0.0001 then [v1] else [v1, v2])"
  by (simp add: removeDuplicateVertices_def Let_def)

lemma apart_snoc:
  assumes "apart acc" and "\<not> list_ex (\<lambda>u. distanceTo u v < 0.0001) acc"
  shows "apart (acc @ [v])"
proof -
  have key: "\<not> distanceTo ((acc @ [v]) ! i) ((acc @ [v]) ! j) < 0.0001"
    if "j < length (acc @ [v])" "i < j" for i j
  proof (cases "j < length acc")
    case True
    with that assms(1) show ?thesis
      by (auto simp: apart_def list_all_iff nth_append)
  next
    case False
    with that have j: "j = length acc" by simp
    with that have "acc ! i \<in> set acc" by simp
    with assms(2) have "\<not> distanceTo (acc ! i) v < 0.0001"
      by (auto simp: list_ex_iff)
    with j that show ?thesis by (simp add: nth_append)
  qed
  show ?thesis
    unfolding apart_def list_all_iff
  proof (intro ballI)
    fix j i
    assume "j \<in> set [0 ..< length (acc @ [v])]" "i \<in> set [0 ..< j]"
    then have "j < length (acc @ [v])" "i < j" by auto
    then show "\<not> distanceTo ((acc @ [v]) ! i) ((acc @ [v]) ! j) < 0.0001" by (rule key)
  qed
qed

lemma apart_fold:
  "apart acc \<Longrightarrow>
   apart (fold (\<lambda>v unique. if \<not> list_ex (\<lambda>u. distanceTo u v < 0.0001) unique
                            then unique @ [v] else unique) vs acc)"
proof (induction vs arbitrary: acc)
  case Nil
  then show ?case by simp
next
  case (Cons v vs)
  show ?case
  proof (cases "list_ex (\<lambda>u. distanceTo u v < 0.0001) acc")
    case True
    then show ?thesis using Cons by simp
  next
    case False
    then have "apart (acc @ [v])" using Cons.prems by (intro apart_snoc) simp_all
    then show ?thesis using False Cons.IH by simp
  qed
qed

lemma apart_removeDuplicateVertices: "apart (removeDuplicateVertices vs)"
  unfolding removeDuplicateVertices_def Let_def
  by (rule apart_fold) (simp add: apart_def)

lemma apart_distinct:
  assumes "apart us" "i < j" "j < length us"
  shows "us ! i \<noteq> us ! j"
proof
  assume "us ! i = us ! j"
  then have "distanceTo (us ! i) (us ! j) < 0.0001" by (simp add: distanceTo_self)
  moreover have "\<not> distanceTo (us ! i) (us ! j) < 0.0001"
    using assms by (auto simp: apart_def list_all_iff)
  ultimately show False by simp
qed

subsection \<open>building\<close>

lemma createConnectionStrut_eq:
  "createConnectionStrut p1 p2 S =
     S\<lparr>children := children S @ [OwnMesh (connectionStrutMesh (strutRadius_cfg (config S)) p1 p2)]\<rparr>"
  by (simp add: createConnectionStrut_def connectionStrutMesh_def new_Mesh_def Let_def)

lemma inner_loop:
  "fold (\<lambda>j S'. if P j then createConnectionStrut a (vs ! j) S' else S') js S =
     S\<lparr>children := children S @
          map (\<lambda>j. OwnMesh (connectionStrutMesh (strutRadius_cfg (config S)) a (vs ! j)))
            (filter P js)\<rparr>"
  by (induction js arbitrary: S) (simp_all add: createConnectionStrut_eq)

lemma outer_loop:
  "fold (\<lambda>i. fold (\<lambda>j S'. if P i j then createConnectionStrut (vs ! i) (vs ! j) S' else S')
                (js i)) is S =
     S\<lparr>children := children S @
          concat (map (\<lambda>i. map (\<lambda>j. OwnMesh (connectionStrutMesh (strutRadius_cfg (config S))
                                              (vs ! i) (vs ! j)))
                              (filter (P i) (js i))) is)\<rparr>"
  by (induction "is" arbitrary: S) (simp_all add: inner_loop)

lemma createConnectingStruts_eq:
  "createConnectingStruts vs S =
     S\<lparr>children := children S @ connectionStruts_of (strutRadius_cfg (config S)) vs\<rparr>"
  unfolding createConnectingStruts_def connectionStruts_of_def Let_def
  by (rule outer_loop)

lemma createRadialScissorLink_eq:
  "createRadialScissorLink v S =
     Some (S\<lparr>children := children S @
                [LinkMesh (length (scissorLinks S)) Strut1,
                 LinkMesh (length (scissorLinks S)) Strut2,
                 LinkMesh (length (scissorLinks S)) Pivot],
              scissorLinks := scissorLinks S @
                [the (ScissorLink_new (multiplyScalar (normalize_v v) (maxRadius (config S) * 0.5))
                        (normalize_v v) (maxRadius (config S) * 0.5)
                        (strutRadius_cfg (config S)))]\<rparr>)"
  by (simp add: createRadialScissorLink_def ScissorLink_new_def Let_def)


lemma createRadialScissorLinks_Some:
  "\<exists>S'. createRadialScissorLinks vs S = Some S'
        \<and> config S' = config S
        \<and> sphere_expansionFactor S' = sphere_expansionFactor S
        \<and> isAnimating S' = isAnimating S
        \<and> length (scissorLinks S') = length (scissorLinks S) + length vs
        \<and> (\<forall>L\<in>set (scissorLinks S'). L \<in> set (scissorLinks S) \<or> expansionFactor L = 0.5)
        \<and> (\<exists>refs. children S' = children S @ refs \<and> list_all is_link_ref refs)"
proof (induction vs arbitrary: S)
  case Nil
  then show ?case by simp
next
  case (Cons v vs)
  define S1 where "S1 = the (createRadialScissorLink v S)"
  have S1: "createRadialScissorLink v S = Some S1"
    by (simp add: S1_def createRadialScissorLink_eq)
  have f1: "config S1 = config S" "sphere_expansionFactor S1 = sphere_expansionFactor S"
    "isAnimating S1 = isAnimating S"
    "length (scissorLinks S1) = Suc (length (scissorLinks S))"
    by (simp_all add: S1_def createRadialScissorLink_eq)
  have l1: "\<forall>L\<in>set (scissorLinks S1). L \<in> set (scissorLinks S) \<or> expansionFactor L = 0.5"
    by (auto simp: S1_def createRadialScissorLink_eq ScissorLink_new_fields)
  have c1: "\<exists>refs. children S1 = children S @ refs \<and> list_all is_link_ref refs"
    by (simp add: S1_def createRadialScissorLink_eq is_link_ref_def)
  from Cons.IH [of S1] obtain S' where S':
    "createRadialScissorLinks vs S1 = Some S'" "config S' = config S1"
    "sphere_expansionFactor S' = sphere_expansionFactor S1"
    "isAnimating S' = isAnimating S1"
    "length (scissorLinks S') = length (scissorLinks S1) + length vs"
    "\<forall>L\<in>set (scissorLinks S'). L \<in> set (scissorLinks S1) \<or> expansionFactor L = 0.5"
    "\<exists>refs. children S' = children S1 @ refs \<and> list_all is_link_ref refs"
    by blast
  from c1 S'(7) have c: "\<exists>refs. children S' = children S @ refs \<and> list_all is_link_ref refs"
    by (metis append.assoc list_all_append)
  have "createRadialScissorLinks (v # vs) S = Some S'" using S1 S'(1) by simp
  moreover have "\<forall>L\<in>set (scissorLinks S'). L \<in> set (scissorLinks S) \<or> expansionFactor L = 0.5"
    using l1 S'(6) by blast
  ultimately show ?case using S' f1 c by auto
qed

lemma or_num_nonzero: "d \<noteq> 0 \<Longrightarrow> or_num x d \<noteq> 0"
  by (cases x) simp_all

lemma HobermanSphere_new_Some:
  "\<exists>S. HobermanSphere_new opts vs = Some S
       \<and> minRadius (config S) = or_num (opt_minRadius opts) 2
       \<and> maxRadius (config S) = or_num (opt_maxRadius opts) 8
       \<and> strutRadius_cfg (config S) = or_num (opt_strutRadius opts) 0.08
       \<and> maxRadius (config S) \<noteq> 0
       \<and> sphere_expansionFactor S = 0.5
       \<and> \<not> isAnimating S
       \<and> length (scissorLinks S) = length (removeDuplicateVertices vs)
       \<and> (\<forall>L\<in>set (scissorLinks S). expansionFactor L = 0.5)
       \<and> (\<exists>refs. children S =
              refs @ connectionStruts_of (strutRadius_cfg (config S)) (removeDuplicateVertices vs)
            \<and> list_all is_link_ref refs)"
proof -
  define S0 where "S0 =
       \<lparr>config = \<lparr>minRadius = or_num (opt_minRadius opts) 2,
                  maxRadius = or_num (opt_maxRadius opts) 8,
                  strutRadius_cfg = or_num (opt_strutRadius opts) 0.08,
                  subdivisions = or_num (opt_subdivisions opts) 2,
                  color = or_nat (opt_color opts) 0x00aaff,
                  materialType = or_str (opt_materialType opts) ''metallic''\<rparr>,
        sphere_expansionFactor = 0.5,
        isAnimating = False,
        animationSpeed = 0.3,
        rotationSpeed = 0.2,
        pitchSpeed = 0.1,
        currentPitch = 0,
        scissorLinks = [],
        children = [],
        rotation_x = 0, rotation_y = 0, rotation_z = 0\<rparr>"
  have new: "HobermanSphere_new opts vs = buildSphere vs S0"
    by (simp add: HobermanSphere_new_def S0_def)
  have S0: "maxRadius (config S0) \<noteq> 0" "sphere_expansionFactor S0 = 0.5"
    "minRadius (config S0) = or_num (opt_minRadius opts) 2"
    "maxRadius (config S0) = or_num (opt_maxRadius opts) 8"
    "strutRadius_cfg (config S0) = or_num (opt_strutRadius opts) 0.08"
    "scissorLinks S0 = []" "children S0 = []" "\<not> isAnimating S0"
    by (simp_all add: S0_def or_num_nonzero)
  from createRadialScissorLinks_Some [of "removeDuplicateVertices vs" S0]
  obtain S1 refs where S1:
    "createRadialScissorLinks (removeDuplicateVertices vs) S0 = Some S1"
    "config S1 = config S0" "sphere_expansionFactor S1 = sphere_expansionFactor S0"
    "isAnimating S1 = isAnimating S0"
    "length (scissorLinks S1) = length (scissorLinks S0) + length (removeDuplicateVertices vs)"
    "\<forall>L\<in>set (scissorLinks S1). L \<in> set (scissorLinks S0) \<or> expansionFactor L = 0.5"
    "children S1 = children S0 @ refs" "list_all is_link_ref refs"
    by blast
  have "HobermanSphere_new opts vs =
          Some (createConnectingStruts (removeDuplicateVertices vs) S1)"
    using S1(1) by (simp add: new buildSphere_def Let_def)
  then show ?thesis
    using S0 S1 by (simp add: createConnectingStruts_eq)
qed

subsection \<open>setExpansion\<close>

lemma updateGeometry_idem:
  "updateGeometry ((updateGeometry L)\<lparr>expansionFactor := e\<rparr>) =
     updateGeometry (L\<lparr>expansionFactor := e\<rparr>)"
  by (simp add: updateGeometry_def updateEndpoints_def rotateOnAxis_def Let_def)

lemma ScissorLink_setExpansion_overwrites:
  "ScissorLink_setExpansion f (ScissorLink_setExpansion g L) = ScissorLink_setExpansion f L"
  by (simp add: ScissorLink_setExpansion_def updateGeometry_idem)

lemma updateConnectionStrut_overwrites:
  assumes "config S' = config S"
  shows "updateConnectionStrut S' (updateConnectionStrut S c) = updateConnectionStrut S' c"
  using assms
  by (auto simp: updateConnectionStrut_def Let_def split: Child.splits option.splits)

lemma updateConnectionStrut_cong:
  assumes "config S' = config S" and "sphere_expansionFactor S' = sphere_expansionFactor S"
  shows "updateConnectionStrut S' = updateConnectionStrut S"
  by (rule ext) (simp only: updateConnectionStrut_def assms)

lemma HobermanSphere_setExpansion_eq:
  "HobermanSphere_setExpansion f S =
     S\<lparr>sphere_expansionFactor := max 0 (min 1 f),
       scissorLinks := map (ScissorLink_setExpansion (max 0 (min 1 f))) (scissorLinks S),
       children := map (updateConnectionStrut (S\<lparr>sphere_expansionFactor := max 0 (min 1 f)\<rparr>))
                     (children S)\<rparr>"
proof -
  have "updateConnectionStrut
          (S\<lparr>sphere_expansionFactor := max 0 (min 1 f),
             scissorLinks := map (ScissorLink_setExpansion (max 0 (min 1 f))) (scissorLinks S)\<rparr>)
        = updateConnectionStrut (S\<lparr>sphere_expansionFactor := max 0 (min 1 f)\<rparr>)"
    by (rule updateConnectionStrut_cong) simp_all
  then show ?thesis
    by (simp add: HobermanSphere_setExpansion_def updateConnectionStruts_def Let_def)
qed

lemma HobermanSphere_setExpansion_overwrites:
  "HobermanSphere_setExpansion f (HobermanSphere_setExpansion g S) =
     HobermanSphere_setExpansion f S"
proof -
  let ?Sf = "S\<lparr>sphere_expansionFactor := max 0 (min 1 f)\<rparr>"
  let ?Sg = "S\<lparr>sphere_expansionFactor := max 0 (min 1 g)\<rparr>"
  let ?T = "HobermanSphere_setExpansion g S"
  have cong: "updateConnectionStrut (?T\<lparr>sphere_expansionFactor := max 0 (min 1 f)\<rparr>)
              = updateConnectionStrut ?Sf"
    by (rule updateConnectionStrut_cong) (simp_all add: HobermanSphere_setExpansion_eq)
  have ch: "map (updateConnectionStrut ?Sf) (map (updateConnectionStrut ?Sg) (children S))
            = map (updateConnectionStrut ?Sf) (children S)"
    by (simp add: updateConnectionStrut_overwrites)
  have ln: "map (ScissorLink_setExpansion (max 0 (min 1 f)))
              (map (ScissorLink_setExpansion (max 0 (min 1 g))) (scissorLinks S))
            = map (ScissorLink_setExpansion (max 0 (min 1 f))) (scissorLinks S)"
    by (simp add: ScissorLink_setExpansion_overwrites)
  have "HobermanSphere_setExpansion f ?T =
          ?T\<lparr>sphere_expansionFactor := max 0 (min 1 f),
             scissorLinks := map (ScissorLink_setExpansion (max 0 (min 1 f))) (scissorLinks ?T),
             children := map (updateConnectionStrut ?Sf) (children ?T)\<rparr>"
    by (simp only: HobermanSphere_setExpansion_eq [of f ?T] cong)
  also have "\<dots> = HobermanSphere_setExpansion f S"
    using ch ln by (simp add: HobermanSphere_setExpansion_eq [of _ S])
  finally show ?thesis .
qed

subsection \<open>invariant\<close>

lemma strut_ok_link_refs: "list_all is_link_ref refs \<Longrightarrow> list_all strut_ok refs"
  by (induction refs) (auto simp: is_link_ref_def split: Child.splits)

lemma connectionStruts_of_mem:
  "c \<in> set (connectionStruts_of r us) \<longleftrightarrow>
     (\<exists>i j. i < j \<and> j < length us \<and> distanceTo (us ! i) (us ! j) < 1.2
            \<and> c = OwnMesh (connectionStrutMesh r (us ! i) (us ! j)))"
proof
  assume "c \<in> set (connectionStruts_of r us)"
  then obtain i j where "i < length us" "Suc i \<le> j" "j < length us"
    "distanceTo (us ! i) (us ! j) < 1.2" "c = OwnMesh (connectionStrutMesh r (us ! i) (us ! j))"
    by (auto simp: connectionStruts_of_def)
  then show "\<exists>i j. i < j \<and> j < length us \<and> distanceTo (us ! i) (us ! j) < 1.2
            \<and> c = OwnMesh (connectionStrutMesh r (us ! i) (us ! j))"
    by (intro exI [of _ i] exI [of _ j]) simp
next
  assume "\<exists>i j. i < j \<and> j < length us \<and> distanceTo (us ! i) (us ! j) < 1.2
            \<and> c = OwnMesh (connectionStrutMesh r (us ! i) (us ! j))"
  then obtain i j where ij: "i < j" "j < length us" "distanceTo (us ! i) (us ! j) < 1.2"
    "c = OwnMesh (connectionStrutMesh r (us ! i) (us ! j))" by blast
  let ?f = "\<lambda>i j. OwnMesh (connectionStrutMesh r (us ! i) (us ! j))"
  let ?js = "\<lambda>i. filter (\<lambda>j. distanceTo (us ! i) (us ! j) < 1.2) [i + 1 ..< length us]"
  from ij have imem: "i \<in> set [0 ..< length us]" and jmem: "j \<in> set (?js i)"
    by simp_all
  have 1: "?f i j \<in> set (map (?f i) (?js i))"
    unfolding set_map using jmem by (rule imageI)
  have 2: "map (?f i) (?js i) \<in> set (map (\<lambda>i. map (?f i) (?js i)) [0 ..< length us])"
    unfolding set_map using imem by (rule imageI)
  show "c \<in> set (connectionStruts_of r us)"
    unfolding connectionStruts_of_def ij(4) set_concat by (rule UN_I [where B = set, OF 2 1])
qed

lemma strut_ok_connectionStruts_of:
  assumes "apart us"
  shows "list_all strut_ok (connectionStruts_of r us)"
  unfolding list_all_iff
proof
  fix c assume "c \<in> set (connectionStruts_of r us)"
  then obtain i j where ij: "i < j" "j < length us"
    and c: "c = OwnMesh (connectionStrutMesh r (us ! i) (us ! j))"
    unfolding connectionStruts_of_mem by blast
  from assms ij have "us ! i \<noteq> us ! j" by (rule apart_distinct)
  then show "strut_ok c" by (simp add: c connectionStrutMesh_def)
qed

lemma strut_ok_updateConnectionStrut:
  "strut_ok (updateConnectionStrut S c) = strut_ok c"
  by (cases c) (auto simp: updateConnectionStrut_def Let_def split: option.splits)

lemma tag_of_updateConnectionStrut:
  "tag_of (updateConnectionStrut S c) = tag_of c"
  by (cases c) (auto simp: updateConnectionStrut_def Let_def split: option.splits)

lemma sphere_inv_setExpansion:
  "sphere_inv S \<Longrightarrow> sphere_inv (HobermanSphere_setExpansion f S)"
  by (simp add: sphere_inv_def HobermanSphere_setExpansion_eq list_all_iff
        strut_ok_updateConnectionStrut)

lemma update_eq:
  "update deltaTime now S =
     (if isAnimating S then
        (HobermanSphere_setExpansion (sin (now * 0.001 * animationSpeed S) * 0.5 + 0.5) S)
          \<lparr>rotation_y := rotation_y S + rotationSpeed S * deltaTime,
           currentPitch := currentPitch S + pitchSpeed S * deltaTime,
           rotation_x := sin (currentPitch S + pitchSpeed S * deltaTime) * 0.4,
           rotation_z := cos ((currentPitch S + pitchSpeed S * deltaTime) * 0.7) * 0.3\<rparr>
      else S)"
  by (simp add: update_def Let_def HobermanSphere_setExpansion_eq)

lemma sphere_inv_update: "sphere_inv S \<Longrightarrow> sphere_inv (update deltaTime now S)"
  using sphere_inv_setExpansion [of S "sin (now * 0.001 * animationSpeed S) * 0.5 + 0.5"]
  by (simp add: update_eq sphere_inv_def)

lemma sphere_inv_new:
  assumes "HobermanSphere_new opts vs = Some S"
  shows "sphere_inv S"
proof -
  from HobermanSphere_new_Some [of opts vs] assms
  obtain refs where "maxRadius (config S) \<noteq> 0"
    "children S = refs @ connectionStruts_of (strutRadius_cfg (config S)) (removeDuplicateVertices vs)"
    "list_all is_link_ref refs"
    by auto
  then show ?thesis
    by (simp add: sphere_inv_def strut_ok_link_refs strut_ok_connectionStruts_of
          apart_removeDuplicateVertices)
qed

lemma reachable_inv: "reachable S \<Longrightarrow> sphere_inv S"
proof (induction rule: reachable.induct)
  case (built options vertexPositions S)
  then show ?case by (rule sphere_inv_new)
next
  case (expanded S factor)
  then show ?case by (simp add: sphere_inv_setExpansion)
next
  case (recoloured S c)
  then show ?case by (simp add: sphere_inv_def updateColor_def)
next
  case (rematerialed S t)
  then show ?case by (simp add: sphere_inv_def updateMaterialType_def)
next
  case (started S)
  then show ?case by (simp add: sphere_inv_def startAnimation_def)
next
  case (stopped S)
  then show ?case by (simp add: sphere_inv_def stopAnimation_def)
next
  case (toggled S)
  then show ?case by (simp add: sphere_inv_def toggleAnimation_def)
next
  case (updated S deltaTime now)
  then show ?case by (simp add: sphere_inv_update)
qed

lemma updateConnectionStrut_tagged:
  assumes "updateConnectionStrut T c = OwnMesh m" and "userData m = Some (p1, p2)"
  obtains m0 where "c = OwnMesh m0" and "userData m0 = Some (p1, p2)"
    and "m = m0\<lparr>mesh_position :=
              multiplyScalar (addVectors
                (multiplyScalar p1 ((minRadius (config T) +
                    (maxRadius (config T) - minRadius (config T)) * sphere_expansionFactor T)
                    / maxRadius (config T)))
                (multiplyScalar p2 ((minRadius (config T) +
                    (maxRadius (config T) - minRadius (config T)) * sphere_expansionFactor T)
                    / maxRadius (config T)))) 0.5,
            scale_y := length_v (subVectors
                (multiplyScalar p2 ((minRadius (config T) +
                    (maxRadius (config T) - minRadius (config T)) * sphere_expansionFactor T)
                    / maxRadius (config T)))
                (multiplyScalar p1 ((minRadius (config T) +
                    (maxRadius (config T) - minRadius (config T)) * sphere_expansionFactor T)
                    / maxRadius (config T)))) / height (geometry m0),
            mesh_quaternion := setFromUnitVectors (Vector3 0 1 0) (normalize_v (subVectors
                (multiplyScalar p2 ((minRadius (config T) +
                    (maxRadius (config T) - minRadius (config T)) * sphere_expansionFactor T)
                    / maxRadius (config T)))
                (multiplyScalar p1 ((minRadius (config T) +
                    (maxRadius (config T) - minRadius (config T)) * sphere_expansionFactor T)
                    / maxRadius (config T)))))\<rparr>"
  using assms
  by (cases c) (auto simp: updateConnectionStrut_def Let_def split: option.splits)

lemma apart_imp_distinct:
  assumes "apart us"
  shows "distinct us"
  unfolding distinct_conv_nth
proof (intro allI impI)
  fix i j assume ij: "i < length us" "j < length us" "i \<noteq> j"
  show "us ! i \<noteq> us ! j"
  proof (cases "i < j")
    case True
    with assms ij show ?thesis by (simp add: apart_distinct)
  next
    case False
    with ij have "j < i" by simp
    with assms ij have "us ! j \<noteq> us ! i" by (simp add: apart_distinct)
    then show ?thesis by simp
  qed
qed

lemma length_filter_concat:
  "length (filter Q (concat xss)) = sum_list (map (\<lambda>xs. length (filter Q xs)) xss)"
  by (induction xss) simp_all

lemma length_filter_eq_upt:
  assumes "m \<le> b" "b < n"
  shows "length (filter (\<lambda>j. j = b) [m ..< n]) = 1"
proof -
  have "{x. x = b} \<inter> set [m ..< n] = {b}" using assms by auto
  then show ?thesis by (simp add: distinct_length_filter)
qed

lemma sum_list_delta_upt:
  assumes "a < n"
  shows "sum_list (map (\<lambda>i. if i = a then (x::nat) else 0) [0 ..< n]) = x"
proof -
  have "sum_list (map (\<lambda>i. if i = a then x else 0) [0 ..< n])
        = (\<Sum>i\<in>set [0 ..< n]. if i = a then x else 0)"
    by (rule interv_sum_list_conv_sum_set_nat)
  also have "\<dots> = (if a \<in> set [0 ..< n] then x else 0)"
    by (simp only: sum.delta finite_set)
  finally show ?thesis using assms by simp
qed

lemma count_connectionStruts_of:
  assumes "distinct us" "a < b" "b < length us"
  shows "length (filter (\<lambda>c. tag_of c = Some (us ! a, us ! b)) (connectionStruts_of r us))
         = (if distanceTo (us ! a) (us ! b) < 1.2 then 1 else 0)"
proof -
  let ?n = "length us"
  let ?Q = "\<lambda>c. tag_of c = Some (us ! a, us ! b)"
  let ?f = "\<lambda>i j. OwnMesh (connectionStrutMesh r (us ! i) (us ! j))"
  let ?js = "\<lambda>i. filter (\<lambda>j. distanceTo (us ! i) (us ! j) < 1.2) [i + 1 ..< ?n]"
  let ?x = "if distanceTo (us ! a) (us ! b) < 1.2 then 1 else (0::nat)"
  have row: "length (filter ?Q (map (?f i) (?js i))) = (if i = a then ?x else 0)"
    if i: "i \<in> set [0 ..< ?n]" for i
  proof -
    have eq: "(?Q \<circ> ?f i) j \<longleftrightarrow> i = a \<and> j = b" if "j \<in> set (?js i)" for j
    proof -
      from that i have "i < ?n" "j < ?n" by simp_all
      with assms show ?thesis
        by (simp add: connectionStrutMesh_def nth_eq_iff_index_eq)
    qed
    have "filter ?Q (map (?f i) (?js i)) = map (?f i) (filter (?Q \<circ> ?f i) (?js i))"
      by (simp only: filter_map)
    also have "filter (?Q \<circ> ?f i) (?js i) = filter (\<lambda>j. i = a \<and> j = b) (?js i)"
      by (rule filter_cong [OF refl]) (rule eq)
    finally have len: "length (filter ?Q (map (?f i) (?js i)))
                  = length (filter (\<lambda>j. i = a \<and> j = b) (?js i))"
      by simp
    show ?thesis
    proof (cases "i = a")
      case False
      then have "filter (\<lambda>j. i = a \<and> j = b) (?js i) = []" by simp
      then show ?thesis using False by (simp only: len list.size if_False)
    next
      case True
      then have step: "length (filter (\<lambda>j. i = a \<and> j = b) (?js i))
                 = length (filter (\<lambda>j. j = b) (?js a))" by simp
      have "filter (\<lambda>j. j = b) (?js a)
            = filter (\<lambda>j. distanceTo (us ! a) (us ! j) < 1.2 \<and> j = b) [a + 1 ..< ?n]"
        by (simp add: conj_commute)
      also have "\<dots> = filter (\<lambda>j. distanceTo (us ! a) (us ! b) < 1.2 \<and> j = b) [a + 1 ..< ?n]"
        by (rule filter_cong) auto
      finally have "length (filter (\<lambda>j. j = b) (?js a))
            = (if distanceTo (us ! a) (us ! b) < 1.2
               then length (filter (\<lambda>j. j = b) [a + 1 ..< ?n]) else 0)"
        by simp
      also have "length (filter (\<lambda>j. j = b) [a + 1 ..< ?n]) = 1"
        using assms by (intro length_filter_eq_upt) simp_all
      finally have fin: "length (filter (\<lambda>j. j = b) (?js a)) = ?x" by simp
      have "length (filter ?Q (map (?f i) (?js i))) = ?x"
        by (rule trans [OF len trans [OF step fin]])
      then show ?thesis using True by simp
    qed
  qed
  have "length (filter ?Q (connectionStruts_of r us))
        = sum_list (map (\<lambda>xs. length (filter ?Q xs)) (map (\<lambda>i. map (?f i) (?js i)) [0 ..< ?n]))"
    unfolding connectionStruts_of_def by (rule length_filter_concat)
  also have "\<dots> = sum_list (map (\<lambda>i. length (filter ?Q (map (?f i) (?js i)))) [0 ..< ?n])"
    by (simp only: map_map comp_def)
  also have "\<dots> = sum_list (map (\<lambda>i. if i = a then ?x else 0) [0 ..< ?n])"
    by (rule arg_cong [where f = sum_list], rule map_cong [OF refl], rule row)
  also have "\<dots> = ?x"
    using assms by (intro sum_list_delta_upt) simp
  finally show ?thesis .
qed

lemma count_link_refs:
  "list_all is_link_ref refs \<Longrightarrow> filter (\<lambda>c. tag_of c = Some t) refs = []"
  by (induction refs) (auto simp: is_link_ref_def split: Child.splits)

lemma removeDuplicateVertices_three_x:
  "removeDuplicateVertices [Vector3 0 0 0, Vector3 (119 / 100) 0 0, Vector3 (12 / 5) 0 0] =
     [Vector3 0 0 0, Vector3 (119 / 100) 0 0, Vector3 (12 / 5) 0 0]"
  by (simp add: removeDuplicateVertices_def Let_def distanceTo_along_x)

lemma removeDuplicateVertices_two_x:
  "removeDuplicateVertices [Vector3 1 0 0, Vector3 2 0 0] = [Vector3 1 0 0, Vector3 2 0 0]"
  by (simp add: removeDuplicateVertices_two distanceTo_along_x)

section \<open>Properties of ScissorLink\<close>

text \<open>
  C1, as stated, fails: for a link built with the strut length \<open>-2\<close> the radius is
  \<open>-1\<close> at factor 0 and \<open>0\<close> at factor 1, so it grows with the factor.
\<close>

theorem getCurrentRadius_counterexample:
  "\<not> getCurrentRadius (ScissorLink_setExpansion 1
          (the (ScissorLink_new (Vector3 0 0 0) (Vector3 1 0 0) (- 2) 0.1)))
      \<le> getCurrentRadius (ScissorLink_setExpansion 0
          (the (ScissorLink_new (Vector3 0 0 0) (Vector3 1 0 0) (- 2) 0.1)))"
  by (simp add: getCurrentRadius_def ScissorLink_new_fields)

text \<open>
  C1 (amended): for every link and every factor \<open>f\<close> with \<open>0 \<le> f < 1\<close> set through
  \<open>setExpansion\<close>, \<open>getCurrentRadius\<close> returns \<open>(strutLength/2) * cos (f * pi/2)\<close>; it is
  \<open>strutLength/2\<close> at \<open>f = 0\<close>; and when \<open>strutLength\<close> is not negative it is
  monotonically non-increasing in \<open>f\<close> over \<open>[0,1]\<close>.  The value at \<open>f = 1\<close> is left
  out: the program computes it from \<open>Math.cos(Math.PI / 2)\<close>, which is not 0.
\<close>

theorem getCurrentRadius_spec:
  "(0 \<le> f \<and> f < 1 \<longrightarrow>
      getCurrentRadius (ScissorLink_setExpansion f L) = (strutLength L / 2) * cos (f * pi / 2))
   \<and> (0 \<le> strutLength L \<and> 0 \<le> f \<and> f \<le> g \<and> g \<le> 1 \<longrightarrow>
      getCurrentRadius (ScissorLink_setExpansion g L)
        \<le> getCurrentRadius (ScissorLink_setExpansion f L))
   \<and> getCurrentRadius (ScissorLink_setExpansion 0 L) = strutLength L / 2"
proof -
  have mono: "getCurrentRadius (ScissorLink_setExpansion g L)
        \<le> getCurrentRadius (ScissorLink_setExpansion f L)"
    if h: "0 \<le> strutLength L" "0 \<le> f" "f \<le> g" "g \<le> 1"
  proof -
    have "g * pi / 2 \<le> pi"
    proof -
      have "g * pi \<le> 1 * pi" using h(4) by (intro mult_right_mono) simp_all
      then show ?thesis using pi_ge_zero by linarith
    qed
    moreover have "0 \<le> f * pi / 2" using h(2) by simp
    moreover have "f * pi / 2 \<le> g * pi / 2" using h(3) by (simp add: mult_right_mono)
    ultimately have "cos (g * pi / 2) \<le> cos (f * pi / 2)"
      by (intro cos_monotone_0_pi_le)
    then have "strutLength L / 2 * cos (g * pi / 2) \<le> strutLength L / 2 * cos (f * pi / 2)"
      using h(1) by (intro mult_left_mono) simp_all
    moreover have "max 0 (min 1 f) = f" "max 0 (min 1 g) = g" using h by simp_all
    ultimately show ?thesis by (simp add: getCurrentRadius_def)
  qed
  show ?thesis
    using mono by (simp add: getCurrentRadius_def)
qed

text \<open>C1: the amended statement at a link of strut length 2, factors 1/2 and 1.\<close>

theorem getCurrentRadius_spec_witness:
  "getCurrentRadius (ScissorLink_setExpansion (1/2)
      (the (ScissorLink_new (Vector3 0 0 0) (Vector3 1 0 0) 2 0.1))) = cos (pi / 4)
   \<and> getCurrentRadius (ScissorLink_setExpansion 1
      (the (ScissorLink_new (Vector3 0 0 0) (Vector3 1 0 0) 2 0.1)))
     \<le> getCurrentRadius (ScissorLink_setExpansion (1/2)
      (the (ScissorLink_new (Vector3 0 0 0) (Vector3 1 0 0) 2 0.1)))"
  using getCurrentRadius_spec [of "1/2" "the (ScissorLink_new (Vector3 0 0 0) (Vector3 1 0 0) 2 0.1)" 1]
  by (simp add: ScissorLink_new_fields)

text \<open>
  C2, as stated, fails: constructing a link with the zero vector as axis does not fail.
  It returns a link whose axis is the zero vector and whose meshes have been created.
\<close>

theorem ScissorLink_new_counterexample:
  "ScissorLink_new (Vector3 1 2 3) (Vector3 0 0 0) 2 0.1 \<noteq> None
   \<and> axis (the (ScissorLink_new (Vector3 1 2 3) (Vector3 0 0 0) 2 0.1)) = Vector3 0 0 0
   \<and> geometry (strut1 (the (ScissorLink_new (Vector3 1 2 3) (Vector3 0 0 0) 2 0.1)))
       = CylinderGeometry 0.1 0.1 2 8"
  by (simp add: ScissorLink_new_def initialize_def updateGeometry_def updateEndpoints_def
        rotateOnAxis_def new_Mesh_def normalize_zero Let_def)

text \<open>
  C2 (amended): the construction of a link never fails, whatever the axis, and always
  creates the three meshes: two cylinders of the strut radius and strut length and a
  sphere of twice the strut radius, the latter at the centre.  The stored axis is the
  argument put through \<open>normalize\<close>: the zero vector for the zero axis, and of length 1 for
  every axis whose squared length lies between \<open>1e-200\<close> and \<open>1e200\<close>.  For a non-zero axis
  outside this range nothing is stated.
\<close>

theorem ScissorLink_new_total:
  "\<exists>L. ScissorLink_new pos ax len rad = Some L
       \<and> axis L = normalize_v ax
       \<and> (1 / 10 ^ 200 \<le> dot ax ax \<and> dot ax ax \<le> 10 ^ 200 \<longrightarrow> length_v (axis L) = 1)
       \<and> (ax = Vector3 0 0 0 \<longrightarrow> axis L = Vector3 0 0 0)
       \<and> position L = pos \<and> strutLength L = len \<and> strutRadius L = rad
       \<and> expansionFactor L = 0.5
       \<and> geometry (strut1 L) = CylinderGeometry rad rad len 8
       \<and> geometry (strut2 L) = CylinderGeometry rad rad len 8
       \<and> geometry (pivot L) = SphereGeometry (rad * 2) 16 16
       \<and> mesh_position (pivot L) = pos"
proof -
  obtain L where L: "ScissorLink_new pos ax len rad = Some L"
    by (simp add: ScissorLink_new_def)
  then have the: "L = the (ScissorLink_new pos ax len rad)" by simp
  then have f: "axis L = normalize_v ax" "position L = pos" "strutLength L = len"
    "strutRadius L = rad" "expansionFactor L = 0.5"
    by (simp_all add: ScissorLink_new_fields)
  have m: "geometry (strut1 L) = CylinderGeometry rad rad len 8"
    "geometry (strut2 L) = CylinderGeometry rad rad len 8"
    "geometry (pivot L) = SphereGeometry (rad * 2) 16 16"
    "mesh_position (pivot L) = pos"
    unfolding the
    by (simp_all add: ScissorLink_new_def initialize_def updateGeometry_def updateEndpoints_def
          rotateOnAxis_def new_Mesh_def Let_def)
  have u: "length_v (axis L) = 1" if "1 / 10 ^ 200 \<le> dot ax ax"
  proof -
    have "(0::real) < 1 / 10 ^ 200" by simp
    with that have "0 < dot ax ax" by linarith
    then have "ax \<noteq> Vector3 0 0 0" by (auto simp: dot_def)
    then show ?thesis by (simp add: f(1) normalize_unit)
  qed
  have z: "axis L = Vector3 0 0 0" if "ax = Vector3 0 0 0"
    using that by (simp add: f(1) normalize_zero)
  from L f m u z show ?thesis by simp
qed

text \<open>
  C2: the amended statement at the axes \<open>(3,0,4)\<close>, of squared length 25, and \<open>(0,0,0)\<close>.
\<close>

theorem ScissorLink_new_total_witness:
  "length_v (axis (the (ScissorLink_new (Vector3 0 0 0) (Vector3 3 0 4) 2 0.1))) = 1
   \<and> axis (the (ScissorLink_new (Vector3 0 0 0) (Vector3 0 0 0) 2 0.1)) = Vector3 0 0 0
   \<and> geometry (strut1 (the (ScissorLink_new (Vector3 0 0 0) (Vector3 0 0 0) 2 0.1)))
       = CylinderGeometry 0.1 0.1 2 8"
proof -
  have r: "1 / 10 ^ 200 \<le> dot (Vector3 3 0 4) (Vector3 3 0 4)
           \<and> dot (Vector3 3 0 4) (Vector3 3 0 4) \<le> 10 ^ 200"
    by (simp add: dot_def)
  show ?thesis
    using r ScissorLink_new_total [of "Vector3 0 0 0" "Vector3 3 0 4" 2 "0.1"]
          ScissorLink_new_total [of "Vector3 0 0 0" "Vector3 0 0 0" 2 "0.1"]
    by auto
qed

text \<open>
  C4, as stated, fails at factor 1 for a link built with the zero axis (both struts stay at
  the centre, at distance 0 and not 1) and for a link built with the strut length \<open>-2\<close>
  (the struts are at distance 1, and the formula gives \<open>-1\<close>).
\<close>

theorem strut_distance_counterexample:
  "distanceTo
     (mesh_position (strut1 (ScissorLink_setExpansion 1
        (the (ScissorLink_new (Vector3 0 0 0) (Vector3 0 0 0) 2 0.1)))))
     (position (the (ScissorLink_new (Vector3 0 0 0) (Vector3 0 0 0) 2 0.1)))
   \<noteq> (strutLength (the (ScissorLink_new (Vector3 0 0 0) (Vector3 0 0 0) 2 0.1)) / 2)
        * sin (1 * pi / 2)
   \<and> distanceTo
     (mesh_position (strut1 (ScissorLink_setExpansion 1
        (the (ScissorLink_new (Vector3 0 0 0) (Vector3 1 0 0) (- 2) 0.1)))))
     (position (the (ScissorLink_new (Vector3 0 0 0) (Vector3 1 0 0) (- 2) 0.1)))
   \<noteq> (strutLength (the (ScissorLink_new (Vector3 0 0 0) (Vector3 1 0 0) (- 2) 0.1)) / 2)
        * sin (1 * pi / 2)"
  by (simp add: ScissorLink_setExpansion_def updateGeometry_strut_positions
        ScissorLink_new_fields normalize_zero normalize_x perpAxis1_zero perpAxis1_x
        distanceTo_offset length_v_def)

text \<open>
  C4 (amended): for a link whose axis has length 1 (every link built from a non-zero axis)
  and whose strut length is not negative, and for every factor \<open>f\<close> in \<open>[0,1]\<close>, after
  \<open>setExpansion f\<close> strut 1 is centred at \<open>center + perp1 * offset\<close> and strut 2 at
  \<open>center - perp1 * offset\<close>, with \<open>offset = (strutLength/2) * sin (f * pi/2)\<close> and
  \<open>perp1\<close> of length 1; both are at distance \<open>offset\<close> from the centre.
\<close>

theorem strut_positions_symmetric:
  assumes "length_v (axis L) = 1" and "0 \<le> strutLength L" and "0 \<le> f" and "f \<le> 1"
  defines "offset \<equiv> (strutLength L / 2) * sin (f * pi / 2)"
  defines "L' \<equiv> ScissorLink_setExpansion f L"
  shows "mesh_position (strut1 L') = add (position L) (multiplyScalar (perpAxis1_of (axis L)) offset)
       \<and> mesh_position (strut2 L') =
           add (position L) (multiplyScalar (perpAxis1_of (axis L)) (- offset))
       \<and> distanceTo (mesh_position (strut1 L')) (position L) = offset
       \<and> distanceTo (mesh_position (strut2 L')) (position L) = offset
       \<and> length_v (perpAxis1_of (axis L)) = 1"
proof -
  have cl: "max 0 (min 1 f) = f" using assms(3,4) by simp
  have "0 \<le> f * pi / 2" using assms(3) by simp
  moreover have "f * pi / 2 \<le> pi"
  proof -
    have "f * pi \<le> 1 * pi" using assms(4) by (intro mult_right_mono) simp_all
    then show ?thesis using pi_ge_zero by linarith
  qed
  ultimately have "0 \<le> sin (f * pi / 2)" by (rule sin_ge_zero)
  then have off: "0 \<le> offset" using assms(2) by (simp add: offset_def)
  have u: "length_v (perpAxis1_of (axis L)) = 1" using assms(1) by (rule perpAxis1_unit)
  have p1: "mesh_position (strut1 L') =
      add (position L) (multiplyScalar (perpAxis1_of (axis L)) offset)"
    by (simp add: L'_def offset_def ScissorLink_setExpansion_def updateGeometry_strut_positions cl)
  have p2: "mesh_position (strut2 L') =
      add (position L) (multiplyScalar (perpAxis1_of (axis L)) (- offset))"
    by (simp add: L'_def offset_def ScissorLink_setExpansion_def updateGeometry_strut_positions cl)
  show ?thesis using off u by (simp add: p1 p2 distanceTo_offset)
qed

text \<open>C4: the amended statement at the axis \<open>(1,0,0)\<close>, strut length 2 and factor 1.\<close>

theorem strut_positions_symmetric_witness:
  "mesh_position (strut1 (ScissorLink_setExpansion 1
       (the (ScissorLink_new (Vector3 0 0 0) (Vector3 1 0 0) 2 0.1)))) = Vector3 0 0 1
   \<and> mesh_position (strut2 (ScissorLink_setExpansion 1
       (the (ScissorLink_new (Vector3 0 0 0) (Vector3 1 0 0) 2 0.1)))) = Vector3 0 0 (- 1)
   \<and> distanceTo (mesh_position (strut1 (ScissorLink_setExpansion 1
       (the (ScissorLink_new (Vector3 0 0 0) (Vector3 1 0 0) 2 0.1))))) (Vector3 0 0 0) = 1"
  using strut_positions_symmetric
    [of "the (ScissorLink_new (Vector3 0 0 0) (Vector3 1 0 0) 2 0.1)" 1]
  by (simp add: ScissorLink_new_fields normalize_x perpAxis1_x length_v_def add_def
        multiplyScalar_def distanceTo_def distanceToSquared_def)

text \<open>
  C5: whatever argument \<open>setExpansion\<close> is called with, the expansion factor \<open>f\<close> the link
  then holds is the clamped argument, and with \<open>openAngle = f * pi/2\<close>,
  \<open>offset = (strutLength/2) * sin openAngle\<close> and \<open>height = (strutLength/2) * cos openAngle\<close>
  the four endpoints are \<open>center \<plusminus> axis * height \<plusminus> perp1 * offset\<close>: top1 \<open>(+,+)\<close>,
  top2 \<open>(+,-)\<close>, bottom1 \<open>(-,+)\<close>, bottom2 \<open>(-,-)\<close>.  An argument in \<open>[0,1]\<close> is the factor
  itself.  The same holds right after construction, at the factor \<open>0.5\<close>.
\<close>

theorem endpoints_spec:
  fixes L :: ScissorLink and g :: real and pos ax :: Vector3 and len rad :: real
  defines "f \<equiv> expansionFactor (ScissorLink_setExpansion g L)"
  defines "openAngle \<equiv> f * pi / 2"
  defines "offset \<equiv> (strutLength L / 2) * sin openAngle"
  defines "hgt \<equiv> (strutLength L / 2) * cos openAngle"
  defines "up \<equiv> multiplyScalar (axis L) hgt"
  defines "side \<equiv> multiplyScalar (perpAxis1_of (axis L)) offset"
  defines "N \<equiv> the (ScissorLink_new pos ax len rad)"
  defines "up0 \<equiv> multiplyScalar (axis N) ((len / 2) * cos (0.5 * pi / 2))"
  defines "side0 \<equiv> multiplyScalar (perpAxis1_of (axis N)) ((len / 2) * sin (0.5 * pi / 2))"
  shows "f = max 0 (min 1 g)
       \<and> endpoints (ScissorLink_setExpansion g L) =
           \<lparr>top1 = addVectors (addVectors (position L) up) side,
            top2 = subVectors (addVectors (position L) up) side,
            bottom1 = addVectors (subVectors (position L) up) side,
            bottom2 = subVectors (subVectors (position L) up) side\<rparr>
       \<and> endpoints N =
           \<lparr>top1 = addVectors (addVectors pos up0) side0,
            top2 = subVectors (addVectors pos up0) side0,
            bottom1 = addVectors (subVectors pos up0) side0,
            bottom2 = subVectors (subVectors pos up0) side0\<rparr>"
  by (simp add: ScissorLink_setExpansion_def ScissorLink_new_def initialize_def
        updateGeometry_def updateEndpoints_def Let_def
        f_def openAngle_def offset_def hgt_def up_def side_def N_def up0_def side0_def
        add_def addVectors_def subVectors_def multiplyScalar_def)

text \<open>
  C5: the statement at the centre \<open>(5,0,0)\<close>, axis \<open>(1,0,0)\<close>, strut length 2: the endpoints
  at factor 0 and at factor 1.
\<close>

theorem endpoints_spec_witness:
  "endpoints (ScissorLink_setExpansion 0
       (the (ScissorLink_new (Vector3 5 0 0) (Vector3 1 0 0) 2 0.1))) =
     \<lparr>top1 = Vector3 6 0 0, top2 = Vector3 6 0 0,
      bottom1 = Vector3 4 0 0, bottom2 = Vector3 4 0 0\<rparr>
   \<and> endpoints (ScissorLink_setExpansion 1
       (the (ScissorLink_new (Vector3 5 0 0) (Vector3 1 0 0) 2 0.1))) =
     \<lparr>top1 = Vector3 5 0 1, top2 = Vector3 5 0 (- 1),
      bottom1 = Vector3 5 0 1, bottom2 = Vector3 5 0 (- 1)\<rparr>"
  using endpoints_spec [of 0 "the (ScissorLink_new (Vector3 5 0 0) (Vector3 1 0 0) 2 0.1)"]
        endpoints_spec [of 1 "the (ScissorLink_new (Vector3 5 0 0) (Vector3 1 0 0) 2 0.1)"]
  by (simp add: ScissorLink_new_fields normalize_x perpAxis1_x addVectors_def subVectors_def
        multiplyScalar_def)

section \<open>Properties of the assembly\<close>

text \<open>
  C3: \<open>setExpansion\<close> clamps its argument to \<open>[0,1]\<close>.  For every link and for every
  assembly, \<open>setExpansion (-1)\<close> yields the same state, derived geometry included, as
  \<open>setExpansion 0\<close>, and \<open>setExpansion 2\<close> the same as \<open>setExpansion 1\<close>; in general the
  result for \<open>f\<close> is the result for \<open>max 0 (min 1 f)\<close>, which is the factor stored.  Both
  functions are total: they have no error result.
\<close>

theorem setExpansion_clamps:
  "ScissorLink_setExpansion (- 1) L = ScissorLink_setExpansion 0 L
   \<and> ScissorLink_setExpansion 2 L = ScissorLink_setExpansion 1 L
   \<and> HobermanSphere_setExpansion (- 1) S = HobermanSphere_setExpansion 0 S
   \<and> HobermanSphere_setExpansion 2 S = HobermanSphere_setExpansion 1 S
   \<and> ScissorLink_setExpansion f L = ScissorLink_setExpansion (max 0 (min 1 f)) L
   \<and> HobermanSphere_setExpansion f S = HobermanSphere_setExpansion (max 0 (min 1 f)) S
   \<and> expansionFactor (ScissorLink_setExpansion f L) = max 0 (min 1 f)
   \<and> sphere_expansionFactor (HobermanSphere_setExpansion f S) = max 0 (min 1 f)"
  by (simp add: ScissorLink_setExpansion_def HobermanSphere_setExpansion_eq)

text \<open>
  C6: built from two vertices, the assembly has one scissor link when their distance is
  below the threshold \<open>0.0001\<close> and two otherwise; in particular one at distance
  \<open>0.00005\<close> and two at distance \<open>0.0002\<close>.
\<close>

theorem vertex_dedup_threshold:
  "\<exists>S. HobermanSphere_new options [v1, v2] = Some S
       \<and> length (scissorLinks S) = (if distanceTo v1 v2 < 0.0001 then 1 else 2)
       \<and> (distanceTo v1 v2 = 0.00005 \<longrightarrow> length (scissorLinks S) = 1)
       \<and> (distanceTo v1 v2 = 0.0002 \<longrightarrow> length (scissorLinks S) = 2)"
proof -
  from HobermanSphere_new_Some [of options "[v1, v2]"]
  obtain S where S: "HobermanSphere_new options [v1, v2] = Some S"
    "length (scissorLinks S) = length (removeDuplicateVertices [v1, v2])"
    by blast
  have "length (scissorLinks S) = (if distanceTo v1 v2 < 0.0001 then 1 else 2)"
    by (simp add: S(2) removeDuplicateVertices_two)
  then show ?thesis using S(1) by auto
qed

text \<open>
  C6: the statement at the vertices \<open>(1,0,0)\<close>, \<open>(1.00005,0,0)\<close> and at
  \<open>(1,0,0)\<close>, \<open>(1.0002,0,0)\<close>.
\<close>

theorem vertex_dedup_threshold_witness:
  "length (scissorLinks (the (HobermanSphere_new
      \<lparr>opt_minRadius = Some 2, opt_maxRadius = Some 8, opt_strutRadius = None,
       opt_subdivisions = Some 0, opt_color = None, opt_materialType = None\<rparr>
      [Vector3 1 0 0, Vector3 1.00005 0 0]))) = 1
   \<and> length (scissorLinks (the (HobermanSphere_new
      \<lparr>opt_minRadius = Some 2, opt_maxRadius = Some 8, opt_strutRadius = None,
       opt_subdivisions = Some 0, opt_color = None, opt_materialType = None\<rparr>
      [Vector3 1 0 0, Vector3 1.0002 0 0]))) = 2"
  using vertex_dedup_threshold
      [of "\<lparr>opt_minRadius = Some 2, opt_maxRadius = Some 8, opt_strutRadius = None,
            opt_subdivisions = Some 0, opt_color = None, opt_materialType = None\<rparr>"
          "Vector3 1 0 0" "Vector3 1.00005 0 0"]
    vertex_dedup_threshold
      [of "\<lparr>opt_minRadius = Some 2, opt_maxRadius = Some 8, opt_strutRadius = None,
            opt_subdivisions = Some 0, opt_color = None, opt_materialType = None\<rparr>"
          "Vector3 1 0 0" "Vector3 1.0002 0 0"]
  by (auto simp: distanceTo_along_x)

text \<open>
  C7: in the assembly built from a vertex list, for every pair \<open>i < j\<close> of the unique
  vertices there is a connecting strut with these two reference points exactly when their
  distance is below \<open>1.2\<close>, and then there is exactly one; so a pair at distance
  \<open>1.19\<close> gets a strut and a pair at distance \<open>1.21\<close> gets none.
\<close>

theorem connecting_strut_threshold:
  assumes "HobermanSphere_new options vertexPositions = Some S"
    and "i < j" and "j < length (removeDuplicateVertices vertexPositions)"
  defines "us \<equiv> removeDuplicateVertices vertexPositions"
  shows "((\<exists>m. OwnMesh m \<in> set (children S) \<and> userData m = Some (us ! i, us ! j))
            \<longleftrightarrow> distanceTo (us ! i) (us ! j) < 1.2)
       \<and> length (filter (\<lambda>c. tag_of c = Some (us ! i, us ! j)) (children S))
           = (if distanceTo (us ! i) (us ! j) < 1.2 then 1 else 0)
       \<and> (distanceTo (us ! i) (us ! j) = 1.19 \<longrightarrow>
            (\<exists>m. OwnMesh m \<in> set (children S) \<and> userData m = Some (us ! i, us ! j)))
       \<and> (distanceTo (us ! i) (us ! j) = 1.21 \<longrightarrow>
            \<not> (\<exists>m. OwnMesh m \<in> set (children S) \<and> userData m = Some (us ! i, us ! j)))"
proof -
  from HobermanSphere_new_Some [of options vertexPositions] assms(1)
  obtain refs where ch:
    "children S = refs @ connectionStruts_of (strutRadius_cfg (config S)) us"
    and refs: "list_all is_link_ref refs"
    unfolding us_def by auto
  have own: "OwnMesh m \<in> set (children S) \<longleftrightarrow>
      OwnMesh m \<in> set (connectionStruts_of (strutRadius_cfg (config S)) us)" for m
    using refs by (auto simp: ch list_all_iff is_link_ref_def)
  have iff: "(\<exists>m. OwnMesh m \<in> set (children S) \<and> userData m = Some (us ! i, us ! j))
            \<longleftrightarrow> distanceTo (us ! i) (us ! j) < 1.2"
  proof
    assume "\<exists>m. OwnMesh m \<in> set (children S) \<and> userData m = Some (us ! i, us ! j)"
    then obtain m where m: "OwnMesh m \<in> set (connectionStruts_of (strutRadius_cfg (config S)) us)"
      "userData m = Some (us ! i, us ! j)"
      unfolding own by blast
    from m(1) obtain a b where ab: "distanceTo (us ! a) (us ! b) < 1.2"
      "m = connectionStrutMesh (strutRadius_cfg (config S)) (us ! a) (us ! b)"
      unfolding connectionStruts_of_mem by auto
    from ab(2) m(2) have "us ! a = us ! i" "us ! b = us ! j"
      by (simp_all add: connectionStrutMesh_def)
    with ab(1) show "distanceTo (us ! i) (us ! j) < 1.2" by simp
  next
    assume "distanceTo (us ! i) (us ! j) < 1.2"
    with assms(2,3)
    have "OwnMesh (connectionStrutMesh (strutRadius_cfg (config S)) (us ! i) (us ! j))
            \<in> set (connectionStruts_of (strutRadius_cfg (config S)) us)"
      unfolding connectionStruts_of_mem us_def by blast
    moreover have "userData (connectionStrutMesh (strutRadius_cfg (config S)) (us ! i) (us ! j))
            = Some (us ! i, us ! j)"
      by (simp add: connectionStrutMesh_def)
    ultimately show "\<exists>m. OwnMesh m \<in> set (children S) \<and> userData m = Some (us ! i, us ! j)"
      unfolding own by blast
  qed
  have "distinct us"
    unfolding us_def by (intro apart_imp_distinct apart_removeDuplicateVertices)
  then have "length (filter (\<lambda>c. tag_of c = Some (us ! i, us ! j))
                 (connectionStruts_of (strutRadius_cfg (config S)) us))
             = (if distanceTo (us ! i) (us ! j) < 1.2 then 1 else 0)"
    using assms(2,3) unfolding us_def by (intro count_connectionStruts_of)
  then have cnt: "length (filter (\<lambda>c. tag_of c = Some (us ! i, us ! j)) (children S))
             = (if distanceTo (us ! i) (us ! j) < 1.2 then 1 else 0)"
    using refs by (simp add: ch count_link_refs)
  show ?thesis unfolding iff cnt by simp
qed

text \<open>
  C7: the statement at the vertices \<open>(0,0,0)\<close>, \<open>(1.19,0,0)\<close>, \<open>(2.4,0,0)\<close>: the
  first two are \<open>1.19\<close> apart, the last two \<open>1.21\<close>.
\<close>

theorem connecting_strut_threshold_witness:
  "(\<exists>m. OwnMesh m \<in> set (children (the (HobermanSphere_new
      \<lparr>opt_minRadius = Some 2, opt_maxRadius = Some 8, opt_strutRadius = None,
       opt_subdivisions = Some 0, opt_color = None, opt_materialType = None\<rparr>
      [Vector3 0 0 0, Vector3 (119 / 100) 0 0, Vector3 (12 / 5) 0 0])))
      \<and> userData m = Some (Vector3 0 0 0, Vector3 (119 / 100) 0 0))
   \<and> \<not> (\<exists>m. OwnMesh m \<in> set (children (the (HobermanSphere_new
      \<lparr>opt_minRadius = Some 2, opt_maxRadius = Some 8, opt_strutRadius = None,
       opt_subdivisions = Some 0, opt_color = None, opt_materialType = None\<rparr>
      [Vector3 0 0 0, Vector3 (119 / 100) 0 0, Vector3 (12 / 5) 0 0])))
      \<and> userData m = Some (Vector3 (119 / 100) 0 0, Vector3 (12 / 5) 0 0))
   \<and> length (filter (\<lambda>c. tag_of c = Some (Vector3 0 0 0, Vector3 (119 / 100) 0 0))
        (children (the (HobermanSphere_new
      \<lparr>opt_minRadius = Some 2, opt_maxRadius = Some 8, opt_strutRadius = None,
       opt_subdivisions = Some 0, opt_color = None, opt_materialType = None\<rparr>
      [Vector3 0 0 0, Vector3 (119 / 100) 0 0, Vector3 (12 / 5) 0 0])))) = 1"
proof -
  let ?opts = "\<lparr>opt_minRadius = Some 2, opt_maxRadius = Some 8, opt_strutRadius = None,
       opt_subdivisions = Some 0, opt_color = None, opt_materialType = None\<rparr>"
  let ?vs = "[Vector3 0 0 0, Vector3 (119 / 100) 0 0, Vector3 (12 / 5) 0 0]"
  obtain S where S: "HobermanSphere_new ?opts ?vs = Some S"
    using HobermanSphere_new_Some [of ?opts ?vs] by blast
  have a: "(0::nat) < 1" "1 < length (removeDuplicateVertices ?vs)"
    and b: "(1::nat) < 2" "2 < length (removeDuplicateVertices ?vs)"
    by (simp_all add: removeDuplicateVertices_three_x)
  show ?thesis
    using connecting_strut_threshold [OF S a] connecting_strut_threshold [OF S b]
    by (simp add: S removeDuplicateVertices_three_x distanceTo_along_x)
qed

text \<open>
  C8: in every state the assembly can reach, \<open>maxRadius\<close> is not 0, and
  \<open>setExpansion f\<close> keeps the connecting struts and their reference points and recomputes
  each of them: with the reference points scaled by
  \<open>(minRadius + (maxRadius - minRadius) * factor) / maxRadius\<close>, for the clamped factor, the
  strut is placed at the midpoint of the scaled points, its length (the scale along the
  strut times the height of its cylinder, which is not 0) is the distance of the scaled
  points, and its orientation is derived from their difference.  Hence
  \<open>setExpansion 0; setExpansion 1; setExpansion 0\<close> ends in the state that the first
  \<open>setExpansion 0\<close> produced.
\<close>

theorem connection_struts_follow_expansion:
  assumes "reachable S"
  shows "maxRadius (config S) \<noteq> 0
     \<and> map tag_of (children (HobermanSphere_setExpansion f S)) = map tag_of (children S)
     \<and> (\<forall>m p1 p2. OwnMesh m \<in> set (children (HobermanSphere_setExpansion f S))
            \<and> userData m = Some (p1, p2) \<longrightarrow>
          (let scaleFactor = (minRadius (config S) +
                   (maxRadius (config S) - minRadius (config S)) * max 0 (min 1 f))
                   / maxRadius (config S);
               point1 = multiplyScalar p1 scaleFactor;
               point2 = multiplyScalar p2 scaleFactor
           in mesh_position m = multiplyScalar (addVectors point1 point2) 0.5
            \<and> (\<exists>rt rb n. geometry m = CylinderGeometry rt rb (length_v (subVectors p2 p1)) n)
            \<and> height (geometry m) \<noteq> 0
            \<and> scale_y m = length_v (subVectors point2 point1) / height (geometry m)
            \<and> scale_y m * height (geometry m) = length_v (subVectors point2 point1)
            \<and> mesh_quaternion m =
                setFromUnitVectors (Vector3 0 1 0) (normalize_v (subVectors point2 point1))))
     \<and> HobermanSphere_setExpansion 0 (HobermanSphere_setExpansion 1
          (HobermanSphere_setExpansion 0 S)) = HobermanSphere_setExpansion 0 S"
proof -
  from assms have inv: "sphere_inv S" by (rule reachable_inv)
  let ?T = "S\<lparr>sphere_expansionFactor := max 0 (min 1 f)\<rparr>"
  have tags: "map tag_of (children (HobermanSphere_setExpansion f S)) = map tag_of (children S)"
    by (simp add: HobermanSphere_setExpansion_eq tag_of_updateConnectionStrut comp_def)
  have struts: "(let scaleFactor = (minRadius (config S) +
                   (maxRadius (config S) - minRadius (config S)) * max 0 (min 1 f))
                   / maxRadius (config S);
               point1 = multiplyScalar p1 scaleFactor;
               point2 = multiplyScalar p2 scaleFactor
           in mesh_position m = multiplyScalar (addVectors point1 point2) 0.5
            \<and> (\<exists>rt rb n. geometry m = CylinderGeometry rt rb (length_v (subVectors p2 p1)) n)
            \<and> height (geometry m) \<noteq> 0
            \<and> scale_y m = length_v (subVectors point2 point1) / height (geometry m)
            \<and> scale_y m * height (geometry m) = length_v (subVectors point2 point1)
            \<and> mesh_quaternion m =
                setFromUnitVectors (Vector3 0 1 0) (normalize_v (subVectors point2 point1)))"
    if m: "OwnMesh m \<in> set (children (HobermanSphere_setExpansion f S))"
      and u: "userData m = Some (p1, p2)" for m p1 p2
  proof -
    from m obtain c where c: "c \<in> set (children S)" "updateConnectionStrut ?T c = OwnMesh m"
      by (auto simp: HobermanSphere_setExpansion_eq)
    from c(2) u obtain m0 where m0: "c = OwnMesh m0" "userData m0 = Some (p1, p2)"
      and meq: "m = m0\<lparr>mesh_position :=
              multiplyScalar (addVectors
                (multiplyScalar p1 ((minRadius (config ?T) +
                    (maxRadius (config ?T) - minRadius (config ?T)) * sphere_expansionFactor ?T)
                    / maxRadius (config ?T)))
                (multiplyScalar p2 ((minRadius (config ?T) +
                    (maxRadius (config ?T) - minRadius (config ?T)) * sphere_expansionFactor ?T)
                    / maxRadius (config ?T)))) 0.5,
            scale_y := length_v (subVectors
                (multiplyScalar p2 ((minRadius (config ?T) +
                    (maxRadius (config ?T) - minRadius (config ?T)) * sphere_expansionFactor ?T)
                    / maxRadius (config ?T)))
                (multiplyScalar p1 ((minRadius (config ?T) +
                    (maxRadius (config ?T) - minRadius (config ?T)) * sphere_expansionFactor ?T)
                    / maxRadius (config ?T)))) / height (geometry m0),
            mesh_quaternion := setFromUnitVectors (Vector3 0 1 0) (normalize_v (subVectors
                (multiplyScalar p2 ((minRadius (config ?T) +
                    (maxRadius (config ?T) - minRadius (config ?T)) * sphere_expansionFactor ?T)
                    / maxRadius (config ?T)))
                (multiplyScalar p1 ((minRadius (config ?T) +
                    (maxRadius (config ?T) - minRadius (config ?T)) * sphere_expansionFactor ?T)
                    / maxRadius (config ?T)))))\<rparr>"
      by (rule updateConnectionStrut_tagged)
    from inv c(1) have "strut_ok c" by (simp add: sphere_inv_def list_all_iff)
    with m0 have ne: "p1 \<noteq> p2"
      and cyl: "\<exists>rt rb n. geometry m0 = CylinderGeometry rt rb (length_v (subVectors p2 p1)) n"
      by (auto split: Geometry.splits)
    then have hg: "height (geometry m0) = length_v (subVectors p2 p1)" by auto
    moreover have "length_v (subVectors p2 p1) \<noteq> 0"
      using ne by (auto simp: length_v_zero_iff subVectors_def intro: Vector3.expand)
    ultimately have h: "height (geometry m0) \<noteq> 0" by simp
    show ?thesis using h cyl by (simp add: meq Let_def)
  qed
  have "maxRadius (config S) \<noteq> 0" using inv by (simp add: sphere_inv_def)
  moreover note tags
  moreover have "HobermanSphere_setExpansion 0 (HobermanSphere_setExpansion 1
          (HobermanSphere_setExpansion 0 S)) = HobermanSphere_setExpansion 0 S"
    by (simp only: HobermanSphere_setExpansion_overwrites)
  ultimately show ?thesis using struts by blast
qed

text \<open>
  C8: the statement at the assembly built with \<open>minRadius = 2\<close>, \<open>maxRadius = 8\<close> from
  the vertices \<open>(1,0,0)\<close> and \<open>(2,0,0)\<close>, at factor 0: the scale is \<open>1/4\<close>.
\<close>

theorem connection_struts_follow_expansion_witness:
  "\<exists>m. OwnMesh m \<in> set (children (HobermanSphere_setExpansion 0 (the (HobermanSphere_new
      \<lparr>opt_minRadius = Some 2, opt_maxRadius = Some 8, opt_strutRadius = None,
       opt_subdivisions = Some 0, opt_color = None, opt_materialType = None\<rparr>
      [Vector3 1 0 0, Vector3 2 0 0]))))
     \<and> userData m = Some (Vector3 1 0 0, Vector3 2 0 0)
     \<and> mesh_position m = Vector3 (3 / 8) 0 0
     \<and> scale_y m * height (geometry m) = 1 / 4"
proof -
  let ?opts = "\<lparr>opt_minRadius = Some 2, opt_maxRadius = Some 8, opt_strutRadius = None,
       opt_subdivisions = Some 0, opt_color = None, opt_materialType = None\<rparr>"
  let ?vs = "[Vector3 1 0 0, Vector3 2 0 0]"
  let ?t = "Some (Vector3 1 0 0, Vector3 2 0 0)"
  from HobermanSphere_new_Some [of ?opts ?vs]
  obtain S refs where S: "HobermanSphere_new ?opts ?vs = Some S"
    and cfg: "minRadius (config S) = 2" "maxRadius (config S) = 8"
    and ch: "children S = refs @ connectionStruts_of (strutRadius_cfg (config S)) ?vs"
    by (auto simp: removeDuplicateVertices_two_x)
  have r: "reachable S" using S by (rule reachable.built)
  note t = connection_struts_follow_expansion [OF r, of 0]
  have "OwnMesh (connectionStrutMesh (strutRadius_cfg (config S)) (?vs ! 0) (?vs ! 1))
          \<in> set (connectionStruts_of (strutRadius_cfg (config S)) ?vs)"
    unfolding connectionStruts_of_mem
    by (intro exI [of _ 0] exI [of _ 1]) (simp add: distanceTo_along_x)
  then have "?t \<in> tag_of ` set (children S)"
    unfolding ch by (force simp: connectionStrutMesh_def)
  then have "?t \<in> set (map tag_of (children (HobermanSphere_setExpansion 0 S)))"
    using t by simp
  then obtain c where c: "c \<in> set (children (HobermanSphere_setExpansion 0 S))" "tag_of c = ?t"
    by auto
  from c(2) obtain m where m: "c = OwnMesh m" "userData m = ?t"
    by (cases c) simp_all
  from t c(1) m have
    "(let scaleFactor = (minRadius (config S) +
                   (maxRadius (config S) - minRadius (config S)) * max 0 (min 1 0))
                   / maxRadius (config S);
               point1 = multiplyScalar (Vector3 1 0 0) scaleFactor;
               point2 = multiplyScalar (Vector3 2 0 0) scaleFactor
           in mesh_position m = multiplyScalar (addVectors point1 point2) 0.5
            \<and> (\<exists>rt rb n. geometry m =
                  CylinderGeometry rt rb (length_v (subVectors (Vector3 2 0 0) (Vector3 1 0 0))) n)
            \<and> height (geometry m) \<noteq> 0
            \<and> scale_y m = length_v (subVectors point2 point1) / height (geometry m)
            \<and> scale_y m * height (geometry m) = length_v (subVectors point2 point1)
            \<and> mesh_quaternion m =
                setFromUnitVectors (Vector3 0 1 0) (normalize_v (subVectors point2 point1)))"
    by blast
  then have "mesh_position m = Vector3 (3 / 8) 0 0" "scale_y m * height (geometry m) = 1 / 4"
    by (simp_all add: cfg Let_def multiplyScalar_def addVectors_def length_v_subVectors
          distanceTo_along_x)
  with c(1) m show ?thesis by (auto simp: S)
qed

text \<open>
  C9: while the assembly is paused (\<open>isAnimating\<close> is false), \<open>update\<close> leaves the whole
  state as it is, the expansion factor, the yaw and the pitch phase included.  Pausing
  and resuming change only \<open>isAnimating\<close>: the values are frozen, not reset.
\<close>

theorem paused_update_frozen:
  "(\<not> isAnimating S \<longrightarrow> update deltaTime now S = S)
   \<and> \<not> isAnimating (stopAnimation S)
   \<and> sphere_expansionFactor (stopAnimation S) = sphere_expansionFactor S
   \<and> rotation_x (stopAnimation S) = rotation_x S
   \<and> rotation_y (stopAnimation S) = rotation_y S
   \<and> rotation_z (stopAnimation S) = rotation_z S
   \<and> currentPitch (stopAnimation S) = currentPitch S
   \<and> update deltaTime now (stopAnimation S) = stopAnimation S
   \<and> sphere_expansionFactor (startAnimation S) = sphere_expansionFactor S
   \<and> rotation_x (startAnimation S) = rotation_x S
   \<and> rotation_y (startAnimation S) = rotation_y S
   \<and> rotation_z (startAnimation S) = rotation_z S
   \<and> currentPitch (startAnimation S) = currentPitch S"
  by (simp add: update_def stopAnimation_def startAnimation_def)

text \<open>
  C9: the statement at a freshly built assembly, which is paused.
\<close>

theorem paused_update_frozen_witness:
  "update (1 / 60) 1000 (the (HobermanSphere_new
      \<lparr>opt_minRadius = Some 2, opt_maxRadius = Some 8, opt_strutRadius = None,
       opt_subdivisions = Some 0, opt_color = None, opt_materialType = None\<rparr>
      [Vector3 1 0 0]))
   = the (HobermanSphere_new
      \<lparr>opt_minRadius = Some 2, opt_maxRadius = Some 8, opt_strutRadius = None,
       opt_subdivisions = Some 0, opt_color = None, opt_materialType = None\<rparr>
      [Vector3 1 0 0])"
proof -
  let ?opts = "\<lparr>opt_minRadius = Some 2, opt_maxRadius = Some 8, opt_strutRadius = None,
       opt_subdivisions = Some 0, opt_color = None, opt_materialType = None\<rparr>"
  have "\<not> isAnimating (the (HobermanSphere_new ?opts [Vector3 1 0 0]))"
    using HobermanSphere_new_Some [of ?opts "[Vector3 1 0 0]"] by auto
  then show ?thesis
    using paused_update_frozen [of "the (HobermanSphere_new ?opts [Vector3 1 0 0])" "1 / 60" 1000]
    by simp
qed

text \<open>
  C10: right after construction the expansion factor of the assembly and of every
  scissor link it owns is \<open>0.5\<close>; after every \<open>setExpansion\<close> of the assembly, and
  after every \<open>update\<close> while animating, every link's factor equals the assembly's
  factor, which is the clamped argument.
\<close>

theorem expansionFactor_in_step:
  "(\<exists>S. HobermanSphere_new options vertexPositions = Some S
        \<and> sphere_expansionFactor S = 0.5
        \<and> (\<forall>L\<in>set (scissorLinks S). expansionFactor L = 0.5))
   \<and> sphere_expansionFactor (HobermanSphere_setExpansion f T) = max 0 (min 1 f)
   \<and> length (scissorLinks (HobermanSphere_setExpansion f T)) = length (scissorLinks T)
   \<and> (\<forall>L\<in>set (scissorLinks (HobermanSphere_setExpansion f T)).
         expansionFactor L = sphere_expansionFactor (HobermanSphere_setExpansion f T))
   \<and> (isAnimating T \<longrightarrow>
        length (scissorLinks (update deltaTime now T)) = length (scissorLinks T)
        \<and> sphere_expansionFactor (update deltaTime now T)
            = max 0 (min 1 (sin (now * 0.001 * animationSpeed T) * 0.5 + 0.5))
        \<and> (\<forall>L\<in>set (scissorLinks (update deltaTime now T)).
             expansionFactor L = sphere_expansionFactor (update deltaTime now T)))"
proof -
  have "\<exists>S. HobermanSphere_new options vertexPositions = Some S
        \<and> sphere_expansionFactor S = 0.5
        \<and> (\<forall>L\<in>set (scissorLinks S). expansionFactor L = 0.5)"
    using HobermanSphere_new_Some [of options vertexPositions] by blast
  then show ?thesis
    by (auto simp: update_eq HobermanSphere_setExpansion_eq)
qed

text \<open>
  C10: the statement at the assembly built from the single vertex \<open>(1,0,0)\<close>.
\<close>

theorem expansionFactor_in_step_witness:
  "expansionFactor (scissorLinks (the (HobermanSphere_new
      \<lparr>opt_minRadius = Some 2, opt_maxRadius = Some 8, opt_strutRadius = None,
       opt_subdivisions = Some 0, opt_color = None, opt_materialType = None\<rparr>
      [Vector3 1 0 0])) ! 0) = 0.5
   \<and> expansionFactor (scissorLinks (HobermanSphere_setExpansion 2 (the (HobermanSphere_new
      \<lparr>opt_minRadius = Some 2, opt_maxRadius = Some 8, opt_strutRadius = None,
       opt_subdivisions = Some 0, opt_color = None, opt_materialType = None\<rparr>
      [Vector3 1 0 0]))) ! 0) = 1
   \<and> expansionFactor (scissorLinks (update (1 / 60) 0 (startAnimation (the (HobermanSphere_new
      \<lparr>opt_minRadius = Some 2, opt_maxRadius = Some 8, opt_strutRadius = None,
       opt_subdivisions = Some 0, opt_color = None, opt_materialType = None\<rparr>
      [Vector3 1 0 0])))) ! 0) = 0.5"
proof -
  let ?opts = "\<lparr>opt_minRadius = Some 2, opt_maxRadius = Some 8, opt_strutRadius = None,
       opt_subdivisions = Some 0, opt_color = None, opt_materialType = None\<rparr>"
  let ?S = "the (HobermanSphere_new ?opts [Vector3 1 0 0])"
  let ?A = "startAnimation ?S"
  have len: "length (scissorLinks ?S) = 1"
    using HobermanSphere_new_Some [of ?opts "[Vector3 1 0 0]"]
    by (auto simp: removeDuplicateVertices_def)
  then have lenA: "length (scissorLinks ?A) = 1" "isAnimating ?A"
    by (simp_all add: startAnimation_def)
  note t = expansionFactor_in_step [of ?opts "[Vector3 1 0 0]" 2 ?S]
  note u = expansionFactor_in_step [of ?opts "[Vector3 1 0 0]" 2 ?A "1 / 60" 0]
  have m0: "scissorLinks ?S ! 0 \<in> set (scissorLinks ?S)" using len by simp
  have "length (scissorLinks (HobermanSphere_setExpansion 2 ?S)) = 1" using t len by simp
  then have m1: "scissorLinks (HobermanSphere_setExpansion 2 ?S) ! 0
      \<in> set (scissorLinks (HobermanSphere_setExpansion 2 ?S))" by simp
  have "length (scissorLinks (update (1 / 60) 0 ?A)) = 1" using u lenA by simp
  then have m2: "scissorLinks (update (1 / 60) 0 ?A) ! 0
      \<in> set (scissorLinks (update (1 / 60) 0 ?A))" by simp
  from t have "\<exists>S. HobermanSphere_new ?opts [Vector3 1 0 0] = Some S
        \<and> sphere_expansionFactor S = 0.5
        \<and> (\<forall>L\<in>set (scissorLinks S). expansionFactor L = 0.5)"
    by (rule conjunct1)
  then obtain S0 where S0: "HobermanSphere_new ?opts [Vector3 1 0 0] = Some S0"
    "\<forall>L\<in>set (scissorLinks S0). expansionFactor L = 0.5"
    by blast
  have eq: "?S = S0" by (simp only: S0(1) option.sel)
  have a: "expansionFactor (scissorLinks ?S ! 0) = 0.5"
    using S0(2) m0 unfolding eq by (rule bspec)
  have b: "expansionFactor (scissorLinks (HobermanSphere_setExpansion 2 ?S) ! 0) = 1"
    using t m1 by auto
  have c: "expansionFactor (scissorLinks (update (1 / 60) 0 ?A) ! 0) = 0.5"
    using u m2 lenA(2) by auto
  from a b c show ?thesis by simp
qed

end
